theory Spec2Isabelle
  imports Complex_Main "HOL-Library.Word" "HOL-Library.Sublist"
begin

unbundle bit_operations_syntax

section \<open>Strings\<close>

text \<open>
  A JavaScript string is modelled as the list of its code units, for strings whose code
  units are below 256. \<open>trim\<close> strips the white space and line terminator characters
  in that range. \<open>toLowerCase\<close> maps the capital letters of the range. \<open>toUpperCase\<close> maps
  the small ASCII letters and leaves every other character as it is: JavaScript takes
  some of the others out of the range or to two letters \<open>SS\<close>, and the one use of the
  function, the lookup of a provider, finds nothing for a string with such a character
  either way.
\<close>

definition isWhiteSpace :: "char \<Rightarrow> bool" where
  "isWhiteSpace c \<longleftrightarrow> (of_char c :: nat) \<in> {9, 10, 11, 12, 13, 32, 160}"

text \<open>\<^verbatim>\<open>String.prototype.trim\<close>\<close>

definition trim :: "string \<Rightarrow> string" where
  "trim s = rev (dropWhile isWhiteSpace (rev (dropWhile isWhiteSpace s)))"

definition toLowerChar :: "char \<Rightarrow> char" where
  "toLowerChar c =
     (let n = (of_char c :: nat)
      in if 65 \<le> n \<and> n \<le> 90 \<or> 192 \<le> n \<and> n \<le> 222 \<and> n \<noteq> 215 then char_of (n + 32)
         else c)"

definition toUpperChar :: "char \<Rightarrow> char" where
  "toUpperChar c =
     (let n = (of_char c :: nat) in if 97 \<le> n \<and> n \<le> 122 then char_of (n - 32) else c)"

definition toLowerCase :: "string \<Rightarrow> string" where
  "toLowerCase s = map toLowerChar s"

definition toUpperCase :: "string \<Rightarrow> string" where
  "toUpperCase s = map toUpperChar s"

text \<open>\<^verbatim>\<open>s.startsWith(p)\<close> and \<^verbatim>\<open>s.includes(p)\<close>: \<open>p\<close> occurs in \<open>s\<close> at some position.\<close>

fun startsWith :: "string \<Rightarrow> string \<Rightarrow> bool" where
  "startsWith s [] = True"
| "startsWith [] (p # ps) = False"
| "startsWith (c # cs) (p # ps) = (c = p \<and> startsWith cs ps)"

fun str_includes :: "string \<Rightarrow> string \<Rightarrow> bool" where
  "str_includes [] p = (p = [])"
| "str_includes (c # cs) p = (startsWith (c # cs) p \<or> str_includes cs p)"

text \<open>
  \<^verbatim>\<open>s.replace(a, b)\<close> with a one-character string pattern: only the first occurrence
  is replaced.
\<close>

fun replace_first :: "char \<Rightarrow> char \<Rightarrow> string \<Rightarrow> string" where
  "replace_first a b [] = []"
| "replace_first a b (c # cs) = (if c = a then b # cs else c # replace_first a b cs)"

section \<open>A JavaScript \<^verbatim>\<open>Map\<close>\<close>

text \<open>
  A \<^verbatim>\<open>Map\<close> iterates its keys in insertion order, so it is an association list:
  \<^verbatim>\<open>set\<close> on a key already present replaces the value where the key stands, on a new
  key it appends; \<^verbatim>\<open>keys().next().value\<close> is the first key.
\<close>

fun map_set :: "'k \<Rightarrow> 'v \<Rightarrow> ('k \<times> 'v) list \<Rightarrow> ('k \<times> 'v) list" where
  "map_set k v [] = [(k, v)]"
| "map_set k v (e # m) = (if fst e = k then (k, v) # m else e # map_set k v m)"

definition map_delete :: "'k \<Rightarrow> ('k \<times> 'v) list \<Rightarrow> ('k \<times> 'v) list" where
  "map_delete k m = filter (\<lambda>e. fst e \<noteq> k) m"

definition map_get :: "'k \<Rightarrow> ('k \<times> 'v) list \<Rightarrow> 'v option" where
  "map_get k m = map_of m k"

definition map_keys :: "('k \<times> 'v) list \<Rightarrow> 'k list" where
  "map_keys m = map fst m"

section \<open>The translation service (\<^verbatim>\<open>src/backend/translation.js\<close>)\<close>

text \<open>
  The result object of \<^verbatim>\<open>translateText\<close>. \<open>error\<close> is present only on the result of a
  failed request and \<open>cachedAt\<close> only on an object read from the cache. \<open>timestamp\<close> is
  the clock reading the ISO string is printed from.
\<close>

record translation_result =
  originalText :: string
  translatedText :: string
  sourceLanguage :: string
  targetLanguage :: string
  error :: "string option"
  timestamp :: int
  fromCache :: bool
  cachedAt :: "int option"

type_synonym translation_cache = "(string \<times> translation_result) list"

definition CACHE_MAX_SIZE :: nat where
  "CACHE_MAX_SIZE = 1000"

definition CACHE_TTL :: int where
  "CACHE_TTL = 24 * 60 * 60 * 1000"

definition getCacheKey :: "string \<Rightarrow> string \<Rightarrow> string" where
  "getCacheKey text target = trim (toLowerCase text) @ ''|'' @ target"

text \<open>\<open>now\<close> is the reading of \<^verbatim>\<open>Date.now()\<close>.\<close>

definition addToCache ::
  "string \<Rightarrow> translation_result \<Rightarrow> int \<Rightarrow> translation_cache \<Rightarrow> translation_cache" where
  "addToCache key result now translationCache =
     (let evicted =
        (if length translationCache \<ge> CACHE_MAX_SIZE
         then (case translationCache of
                 [] \<Rightarrow> translationCache
               | first # _ \<Rightarrow> map_delete (fst first) translationCache)
         else translationCache)
      in map_set key (result\<lparr>cachedAt := Some now\<rparr>) evicted)"

text \<open>
  An entry without \<open>cachedAt\<close> makes the age \<^verbatim>\<open>NaN\<close>, which is not greater than the
  time to live.
\<close>

definition expired :: "int \<Rightarrow> translation_result \<Rightarrow> bool" where
  "expired now cached = (case cachedAt cached of None \<Rightarrow> False | Some t \<Rightarrow> now - t > CACHE_TTL)"

definition getFromCache ::
  "string \<Rightarrow> int \<Rightarrow> translation_cache \<Rightarrow> translation_result option \<times> translation_cache" where
  "getFromCache key now translationCache =
     (case map_get key translationCache of
        None \<Rightarrow> (None, translationCache)
      | Some cached \<Rightarrow>
          if expired now cached then (None, map_delete key translationCache)
          else (Some cached, translationCache))"

text \<open>
  \<^verbatim>\<open>translateText\<close> returns \<^verbatim>\<open>null\<close> without a translator, the empty string for a
  blank text, and a result object otherwise.

  The DeepL request is the outside world: \<open>backend\<close> is what the request of this call
  answers if it is made, \<open>Inr\<close> the translated text or \<open>Inl\<close> the message of the error it
  throws. \<open>now\<close> is the clock when the cache is read and \<open>later\<close> the clock after the
  request. The third component of the value counts the requests made.
\<close>

datatype translate_return = ReturnNull | ReturnEmpty | ReturnResult translation_result

definition translateText ::
  "bool \<Rightarrow> string + string \<Rightarrow> int \<Rightarrow> int \<Rightarrow> string \<Rightarrow> string \<Rightarrow> translation_cache
   \<Rightarrow> translate_return \<times> translation_cache \<times> nat" where
  "translateText translator backend now later text target translationCache =
     (if \<not> translator then (ReturnNull, translationCache, 0)
      else if text = [] \<or> length (trim text) = 0 then (ReturnEmpty, translationCache, 0)
      else
        let cacheKey = getCacheKey text target;
            (cached, cache1) = getFromCache cacheKey now translationCache
        in case cached of
             Some hit \<Rightarrow> (ReturnResult (hit\<lparr>fromCache := True, timestamp := now\<rparr>), cache1, 0)
           | None \<Rightarrow>
               (case backend of
                  Inr resultText \<Rightarrow>
                    let translationResult =
                      \<lparr>originalText = text, translatedText = resultText,
                       sourceLanguage = ''cs'', targetLanguage = target,
                       error = None, timestamp = later, fromCache = False, cachedAt = None\<rparr>
                    in (ReturnResult translationResult,
                        addToCache cacheKey translationResult later cache1, 1)
                | Inl message \<Rightarrow>
                    (ReturnResult
                       \<lparr>originalText = text,
                        translatedText = ''[Translation Error: '' @ message @ '']'',
                        sourceLanguage = ''cs'', targetLanguage = target,
                        error = Some message, timestamp = later, fromCache = False,
                        cachedAt = None\<rparr>,
                     cache1, 1)))"

text \<open>A run of insertions, oldest first, each with its key, result and clock reading.\<close>

definition insert_all ::
  "(string \<times> translation_result \<times> int) list \<Rightarrow> translation_cache \<Rightarrow> translation_cache" where
  "insert_all ins translationCache = foldl (\<lambda>c (k, r, t). addToCache k r t c) translationCache ins"

section \<open>Errors\<close>

text \<open>
  The errors the modelled code throws or catches. The source reads only the message of an
  error; the model keeps the value the message is printed from.
\<close>

datatype failure =
    Message string
  | UnknownSTTProvider string
  | ProviderNotImplemented string
  | AudioBufferTooSmall nat
  | UndefinedProperty
  | ValueOutOfRange int
  | OddByteLength

text \<open>A call to an outside service: it throws an error with a message, or returns.\<close>

datatype 'a reply = Throws string | Returns 'a

section \<open>The provider registry (\<^verbatim>\<open>stt-providers.js\<close>, \<^verbatim>\<open>src/unnamed/part_002\<close>)\<close>

definition STT_PROVIDERS :: "(string \<times> string) list" where
  "STT_PROVIDERS =
     [(''GOOGLE_SPEECH'', ''google-speech''),
      (''OPENAI_WHISPER'', ''openai-whisper''),
      (''DEEPGRAM_NOVA3'', ''deepgram-nova-3'')]"

record provider_config =
  cfg_name :: string
  cfg_realtime :: bool
  cfg_confidence :: bool
  cfg_wordTimestamps :: bool
  cfg_speakerDiarization :: bool
  cfg_maxLanguages :: nat

definition PROVIDER_CONFIG :: "(string \<times> provider_config) list" where
  "PROVIDER_CONFIG =
     [(''google-speech'',
       \<lparr>cfg_name = ''Google Speech-to-Text'', cfg_realtime = True, cfg_confidence = True,
        cfg_wordTimestamps = True, cfg_speakerDiarization = True, cfg_maxLanguages = 125\<rparr>),
      (''openai-whisper'',
       \<lparr>cfg_name = ''OpenAI Whisper V3'', cfg_realtime = False, cfg_confidence = False,
        cfg_wordTimestamps = True, cfg_speakerDiarization = False, cfg_maxLanguages = 99\<rparr>),
      (''deepgram-nova-3'',
       \<lparr>cfg_name = ''Deepgram Nova-3'', cfg_realtime = True, cfg_confidence = True,
        cfg_wordTimestamps = True, cfg_speakerDiarization = True, cfg_maxLanguages = 50\<rparr>)]"

text \<open>
  The property name looked up in \<^verbatim>\<open>STT_PROVIDERS\<close>:
  \<^verbatim>\<open>provider.toUpperCase().replace('-', '_')\<close>. No property inherited from
  \<^verbatim>\<open>Object.prototype\<close> has a name free of lower-case letters, so only the three own
  properties can be found.
\<close>

definition provider_key :: "string \<Rightarrow> string" where
  "provider_key provider = replace_first (CHR ''-'') (CHR ''_'') (toUpperCase provider)"

text \<open>
  \<^verbatim>\<open>setSTTProvider\<close> works on the module's variable \<^verbatim>\<open>currentProvider\<close>: the value is
  the error thrown, if any, and the variable afterwards.
\<close>

definition setSTTProvider :: "string \<Rightarrow> string \<Rightarrow> failure option \<times> string" where
  "setSTTProvider provider currentProvider =
     (case map_of STT_PROVIDERS (provider_key provider) of
        None \<Rightarrow> (Some (UnknownSTTProvider provider), currentProvider)
      | Some registered \<Rightarrow> (None, registered))"

definition getProviderConfig :: "string \<Rightarrow> provider_config option" where
  "getProviderConfig currentProvider = map_of PROVIDER_CONFIG currentProvider"

subsection \<open>The recognition backends\<close>

text \<open>
  The common shape of a recognition result. The fields \<^verbatim>\<open>words\<close>, \<^verbatim>\<open>duration\<close> and
  \<^verbatim>\<open>metadata\<close>, which no caller reads, are left out.
\<close>

record recognition_result =
  stt_transcript :: string
  stt_confidence :: rat
  stt_language :: string
  stt_error :: "failure option"
  stt_provider :: "string option"

definition minBufferSize :: nat where
  "minBufferSize = 16000"

text \<open>
  \<^verbatim>\<open>google-speech.js\<close>. The reply of the REST request is the list \<^verbatim>\<open>results\<close> of the
  response (empty when the response has none), each result with its \<^verbatim>\<open>alternatives\<close>
  when it has the field. An alternative is its transcript and confidence; an empty
  transcript and a zero confidence stand for a missing field, as the source's
  \<^verbatim>\<open>||\<close> defaults do.
\<close>

type_synonym google_response = "(string \<times> rat) list option list"

definition googleSpeech_transcribeBuffer ::
  "google_response reply \<Rightarrow> 8 word list \<Rightarrow> string \<Rightarrow> recognition_result" where
  "googleSpeech_transcribeBuffer backend audioBuffer lang =
     (let caught = (\<lambda>e. \<lparr>stt_transcript = [], stt_confidence = 0, stt_language = lang,
                           stt_error = Some e, stt_provider = None\<rparr>);
          none = \<lparr>stt_transcript = [], stt_confidence = 0, stt_language = lang,
                  stt_error = None, stt_provider = None\<rparr>
      in if length audioBuffer < minBufferSize
         then caught (AudioBufferTooSmall (length audioBuffer))
         else case backend of
                Throws msg \<Rightarrow> caught (Message msg)
              | Returns [] \<Rightarrow> none
              | Returns (None # _) \<Rightarrow> caught UndefinedProperty
              | Returns (Some [] # _) \<Rightarrow> none
              | Returns (Some ((t, c) # _) # _) \<Rightarrow>
                  \<lparr>stt_transcript = trim t, stt_confidence = c, stt_language = lang,
                   stt_error = None, stt_provider = None\<rparr>)"

text \<open>
  \<^verbatim>\<open>whisper.js\<close>. The reply is the transcription's \<^verbatim>\<open>text\<close> and \<^verbatim>\<open>language\<close>
  (empty for a missing field); writing the temporary file or the request may throw.
\<close>

definition whisper_transcribeBuffer ::
  "(string \<times> string) reply \<Rightarrow> 8 word list \<Rightarrow> string \<Rightarrow> recognition_result" where
  "whisper_transcribeBuffer backend audioBuffer lang =
     (let caught = (\<lambda>e. \<lparr>stt_transcript = [], stt_confidence = 0, stt_language = lang,
                           stt_error = Some e, stt_provider = None\<rparr>)
      in if length audioBuffer < minBufferSize
         then caught (AudioBufferTooSmall (length audioBuffer))
         else case backend of
                Throws msg \<Rightarrow> caught (Message msg)
              | Returns (t, l) \<Rightarrow>
                  \<lparr>stt_transcript = trim t, stt_confidence = 9 / 10,
                   stt_language = (if l = [] then lang else l),
                   stt_error = None, stt_provider = None\<rparr>)"

text \<open>
  \<^verbatim>\<open>deepgram.js\<close> (\<^verbatim>\<open>src/unnamed/part_003\<close>). The request throws, or answers an error
  that is thrown at once, or answers the first alternative's transcript (empty when
  there is none) and its confidence when that is a number.
\<close>

definition deepgram_transcribeBuffer ::
  "(string \<times> rat option) reply \<Rightarrow> 8 word list \<Rightarrow> string \<Rightarrow> recognition_result" where
  "deepgram_transcribeBuffer backend audioBuffer lang =
     (case backend of
        Throws msg \<Rightarrow>
          \<lparr>stt_transcript = [], stt_confidence = 0, stt_language = lang,
           stt_error = Some (Message msg), stt_provider = Some ''deepgram-nova-3''\<rparr>
      | Returns (t, c) \<Rightarrow>
          \<lparr>stt_transcript = t,
           stt_confidence = (case c of Some n \<Rightarrow> n | None \<Rightarrow> 9 / 10),
           stt_language = lang, stt_error = None,
           stt_provider = Some ''deepgram-nova-3''\<rparr>)"

text \<open>
  \<^verbatim>\<open>transcribeBuffer\<close> of the registry. \<open>world\<close> holds what each backend's request
  answers if it is made. \<open>speechToTranslationLang\<close> belongs to the languages module, which
  is taken as a parameter. The first statement of the \<^verbatim>\<open>try\<close> block reads
  \<^verbatim>\<open>PROVIDER_CONFIG[currentProvider].name\<close>, a \<^verbatim>\<open>TypeError\<close> for a provider without
  configuration.
\<close>

record backends =
  google :: "google_response reply"
  whisper :: "(string \<times> string) reply"
  deepgram :: "(string \<times> rat option) reply"

definition transcribeBuffer ::
  "(string \<Rightarrow> string) \<Rightarrow> backends \<Rightarrow> string \<Rightarrow> 8 word list \<Rightarrow> string \<Rightarrow> recognition_result" where
  "transcribeBuffer speechToTranslationLang world currentProvider audioBuffer lang =
     (let caught = (\<lambda>e. \<lparr>stt_transcript = [], stt_confidence = 0, stt_language = lang,
                           stt_error = Some e, stt_provider = Some currentProvider\<rparr>)
      in case getProviderConfig currentProvider of
           None \<Rightarrow> caught UndefinedProperty
         | Some _ \<Rightarrow>
             if currentProvider = ''google-speech''
             then googleSpeech_transcribeBuffer (google world) audioBuffer lang
             else if currentProvider = ''openai-whisper''
             then whisper_transcribeBuffer (whisper world) audioBuffer
                    (speechToTranslationLang lang)
             else if currentProvider = ''deepgram-nova-3''
             then deepgram_transcribeBuffer (deepgram world) audioBuffer
                    (speechToTranslationLang lang)
             else caught (ProviderNotImplemented currentProvider))"

text \<open>The request of the active provider failed: it threw, with this message.\<close>

definition backend_throws :: "backends \<Rightarrow> string \<Rightarrow> string \<Rightarrow> bool" where
  "backend_throws world currentProvider msg \<longleftrightarrow>
     (currentProvider = ''google-speech'' \<and> google world = Throws msg) \<or>
     (currentProvider = ''openai-whisper'' \<and> whisper world = Throws msg) \<or>
     (currentProvider = ''deepgram-nova-3'' \<and> deepgram world = Throws msg)"

section \<open>The connection handler (\<^verbatim>\<open>src/unnamed/part_006\<close>, from line 268)\<close>

text \<open>
  The state kept for a connected client. The audio buffer is a list of bytes and the
  clock counts milliseconds.
\<close>

record client_connection =
  audioBuffer :: "8 word list"
  isTranscribing :: bool
  lastTranscriptionTime :: int
  lastTranscript :: string
  lastTranslation :: string
  speechLanguage :: string
  translationFrom :: string
  translationTo :: string
  aiPunctuationEnabled :: bool
  punctuationStyle :: string

text \<open>
  The payload of a \<^verbatim>\<open>transcription-result\<close> event, without its \<^verbatim>\<open>timestamp\<close>, the
  wall clock as text.
\<close>

record transcription_result =
  transcript :: string
  translation :: string
  confidence :: rat
  isFinal :: bool
  speaker :: string
  punctuated :: bool

text \<open>
  The events the handler emits to the client in the handlers modelled here. An error
  event carries the text put before the error's message and the error.
\<close>

datatype event =
    Transcription_started string string string
  | Transcription_result transcription_result
  | Transcription_error string failure
  | Stt_provider_updated string "provider_config option"
  | Stt_provider_error failure "string list"

fun event_name :: "event \<Rightarrow> string" where
  "event_name (Transcription_started _ _ _) = ''transcription-started''"
| "event_name (Transcription_result _) = ''transcription-result''"
| "event_name (Transcription_error _ _) = ''transcription-error''"
| "event_name (Stt_provider_updated _ _) = ''stt-provider-updated''"
| "event_name (Stt_provider_error _ _) = ''stt-provider-error''"

text \<open>
  What a handler does besides changing the state, in order: the events it emits and the
  calls it awaits. A call to recognition carries the audio and the language; a call to
  punctuation the text, the language, the style and the flag \<^verbatim>\<open>isTranslation\<close>; a call
  to translation the text and the two languages.
\<close>

datatype effect =
    Emit event
  | Call_transcribeBuffer "8 word list" string
  | Call_addPunctuation string string string bool
  | Call_translateText string string string

fun emitted :: "effect list \<Rightarrow> event list" where
  "emitted [] = []"
| "emitted (Emit e # es) = e # emitted es"
| "emitted (_ # es) = emitted es"

fun is_recognition_call :: "effect \<Rightarrow> bool" where
  "is_recognition_call (Call_transcribeBuffer _ _) = True"
| "is_recognition_call _ = False"

fun is_result_event :: "event \<Rightarrow> bool" where
  "is_result_event (Transcription_result _) = True"
| "is_result_event _ = False"

text \<open>
  What the awaited calls of one run of the pipeline answer. Recognition is
  \<^verbatim>\<open>sttProviders.transcribeBuffer\<close>, which returns a result and never throws. The
  punctuation and translation modules the handler requires are seen through their
  answers: punctuation throws or answers \<^verbatim>\<open>processed\<close> and \<^verbatim>\<open>text\<close>; translation
  throws, or answers an object with \<^verbatim>\<open>translatedText\<close> (empty when missing) and
  \<^verbatim>\<open>translationFailed\<close>, or answers a value that is no object: a string, with the
  empty string standing for every falsy value.
\<close>

datatype punctuation_reply = Punctuation_throws | Punctuation_result bool string

datatype translation_reply =
    Translation_throws
  | Translation_object string bool
  | Translation_value string

record replies =
  recognition :: recognition_result
  transcript_punctuation :: punctuation_reply
  translated :: translation_reply
  translation_punctuation :: punctuation_reply

subsection \<open>Connect and start\<close>

text \<open>The state a client gets when it connects.\<close>

definition new_connection :: client_connection where
  "new_connection =
     \<lparr>audioBuffer = [], isTranscribing = False, lastTranscriptionTime = 0,
      lastTranscript = [], lastTranslation = [], speechLanguage = ''cs-CZ'',
      translationFrom = ''cs'', translationTo = ''en'', aiPunctuationEnabled = True,
      punctuationStyle = ''formal''\<rparr>"

text \<open>The handler of \<^verbatim>\<open>start-transcription\<close>.\<close>

definition on_start_transcription ::
  "int \<Rightarrow> client_connection \<Rightarrow> client_connection \<times> effect list" where
  "on_start_transcription now c =
     (c\<lparr>isTranscribing := True, audioBuffer := [], lastTranscriptionTime := now,
        lastTranscript := [], lastTranslation := []\<rparr>,
      [Emit (Transcription_started (speechLanguage c) (translationFrom c) (translationTo c))])"

subsection \<open>Set the provider\<close>

text \<open>
  The handler of \<^verbatim>\<open>set-stt-provider\<close>, on the registry's variable: the event emitted
  and the variable afterwards. The listing of supported languages in the payload of
  \<^verbatim>\<open>stt-provider-updated\<close>, read from the languages module, is left out.
\<close>

definition on_set_stt_provider :: "string \<Rightarrow> string \<Rightarrow> event \<times> string" where
  "on_set_stt_provider provider currentProvider =
     (case setSTTProvider provider currentProvider of
        (None, current) \<Rightarrow> (Stt_provider_updated provider (getProviderConfig current), current)
      | (Some e, current) \<Rightarrow> (Stt_provider_error e (map snd STT_PROVIDERS), current))"

subsection \<open>Audio as 16-bit samples\<close>

text \<open>
  \<^verbatim>\<open>writeInt16LE\<close> throws a \<^verbatim>\<open>RangeError\<close> for a value outside the 16-bit range, and
  writes the low byte first.
\<close>

definition writeInt16LE :: "int \<Rightarrow> failure + 8 word list" where
  "writeInt16LE v =
     (if v < - 32768 \<or> v > 32767 then Inl (ValueOutOfRange v)
      else Inr [word_of_int v, word_of_int (v div 256)])"

fun audioChunk :: "int list \<Rightarrow> failure + 8 word list" where
  "audioChunk [] = Inr []"
| "audioChunk (v # vs) =
     (case writeInt16LE v of
        Inl e \<Rightarrow> Inl e
      | Inr bytes \<Rightarrow> (case audioChunk vs of Inl e \<Rightarrow> Inl e | Inr rest \<Rightarrow> Inr (bytes @ rest)))"

text \<open>
  \<^verbatim>\<open>new Int16Array(buffer.buffer)\<close> reads the bytes in pairs, low byte first, as signed
  numbers; it throws a \<^verbatim>\<open>RangeError\<close> when the number of bytes is odd. The pipeline
  runs on a buffer that \<^verbatim>\<open>Buffer.concat\<close> has just built with at least 32000 bytes,
  which owns its memory, so the view covers the buffer's bytes and nothing else.
\<close>

fun int16_samples :: "8 word list \<Rightarrow> int list" where
  "int16_samples (lo # hi # rest) = sint (word_cat hi lo :: 16 word) # int16_samples rest"
| "int16_samples _ = []"

definition Int16Array :: "8 word list \<Rightarrow> failure + int list" where
  "Int16Array bytes = (if odd (length bytes) then Inl OddByteLength else Inr (int16_samples bytes))"

definition hasSound :: "int list \<Rightarrow> bool" where
  "hasSound audioArray = list_ex (\<lambda>sample. \<bar>sample\<bar> > 100) audioArray"

subsection \<open>Duplicate checks\<close>

text \<open>
  The two checks compare lengths with the products \<^verbatim>\<open>length * 1.2\<close>, \<^verbatim>\<open>* 0.8\<close>,
  \<^verbatim>\<open>* 1.1\<close> and \<^verbatim>\<open>* 0.9\<close>. The model computes the products exactly. For lengths a
  string can have this decides every comparison as the double arithmetic of the source
  does: an exact product that is a whole number is rounded to itself or, under
  \<^verbatim>\<open>1.1\<close>, at most to the next double above it, and any other exact product is at
  least a tenth away from every whole number.
\<close>

definition isSignificantlyDifferent :: "string \<Rightarrow> string \<Rightarrow> bool" where
  "isSignificantlyDifferent rawTranscript lastText \<longleftrightarrow>
     lastText = [] \<or>
     of_nat (length rawTranscript) > of_nat (length lastText) * (12 / 10 :: rat) \<or>
     of_nat (length rawTranscript) < of_nat (length lastText) * (8 / 10 :: rat) \<or>
     (\<not> str_includes rawTranscript lastText \<and> \<not> str_includes lastText rawTranscript)"

definition isFinalDifferent :: "string \<Rightarrow> string \<Rightarrow> bool" where
  "isFinalDifferent finalRawTranscript lastText \<longleftrightarrow>
     lastText = [] \<or>
     of_nat (length finalRawTranscript) > of_nat (length lastText) * (11 / 10 :: rat) \<or>
     of_nat (length finalRawTranscript) < of_nat (length lastText) * (9 / 10 :: rat) \<or>
     (\<not> str_includes finalRawTranscript lastText \<and> \<not> str_includes lastText finalRawTranscript)"

text \<open>
  The duplicate check in the words of the specification, for a ratio: the new text is no
  duplicate when the last text is empty, or the new text is longer than the last by more
  than the ratio of the last text's length, or shorter by more than that, or neither text
  is a part of the other.
\<close>

definition spec_non_duplicate :: "rat \<Rightarrow> string \<Rightarrow> string \<Rightarrow> bool" where
  "spec_non_duplicate ratio newText lastText \<longleftrightarrow>
     lastText = [] \<or>
     int (length newText) - int (length lastText) > 0 \<and>
       of_int (int (length newText) - int (length lastText)) > ratio * of_nat (length lastText) \<or>
     int (length lastText) - int (length newText) > 0 \<and>
       of_int (int (length lastText) - int (length newText)) > ratio * of_nat (length lastText) \<or>
     (\<not> sublist lastText newText \<and> \<not> sublist newText lastText)"

subsection \<open>The pipeline\<close>

text \<open>The punctuation of the transcript, as both pipelines write it.\<close>

definition punctuate_transcript ::
  "replies \<Rightarrow> client_connection \<Rightarrow> string \<Rightarrow> string \<Rightarrow> string \<times> effect list" where
  "punctuate_transcript world c resultTranscript rawTranscript =
     (if aiPunctuationEnabled c
      then ((case transcript_punctuation world of
               Punctuation_result True t \<Rightarrow> t
             | _ \<Rightarrow> rawTranscript),
            [Call_addPunctuation resultTranscript (translationFrom c) (punctuationStyle c) False])
      else (rawTranscript, []))"

text \<open>
  The translation of an interim result: the text shown as translation and the calls made.
  A translation that failed, or that is the transcript itself, is not punctuated.
\<close>

definition translate_interim ::
  "replies \<Rightarrow> client_connection \<Rightarrow> string \<Rightarrow> string \<times> effect list" where
  "translate_interim world c punctuatedTranscript =
     (let call = Call_translateText punctuatedTranscript (translationFrom c) (translationTo c);
          orTranscript = (\<lambda>t. if t = [] then punctuatedTranscript else t);
          punctuate = (\<lambda>translatedText translationFailed.
            if translatedText \<noteq> [] \<and> translatedText \<noteq> punctuatedTranscript \<and>
               \<not> translationFailed \<and> aiPunctuationEnabled c
            then ((case translation_punctuation world of
                     Punctuation_result True t \<Rightarrow> t
                   | _ \<Rightarrow> translatedText),
                  [call,
                   Call_addPunctuation translatedText (translationTo c)
                     (punctuationStyle c) True])
            else (translatedText, [call]))
      in case translated world of
           Translation_throws \<Rightarrow> (punctuatedTranscript, [call])
         | Translation_object t failed \<Rightarrow> punctuate (orTranscript t) failed
         | Translation_value v \<Rightarrow> punctuate (orTranscript v) False)"

text \<open>The translation of the final result: \<^verbatim>\<open>translationFailed\<close> is not read.\<close>

definition translate_final ::
  "replies \<Rightarrow> client_connection \<Rightarrow> string \<Rightarrow> string \<times> effect list" where
  "translate_final world c punctuatedTranscript =
     (let call = Call_translateText punctuatedTranscript (translationFrom c) (translationTo c);
          orTranscript = (\<lambda>t. if t = [] then punctuatedTranscript else t);
          punctuate = (\<lambda>translatedText.
            if translatedText \<noteq> [] \<and> translatedText \<noteq> punctuatedTranscript \<and>
               aiPunctuationEnabled c
            then ((case translation_punctuation world of
                     Punctuation_result True t \<Rightarrow> t
                   | _ \<Rightarrow> translatedText),
                  [call,
                   Call_addPunctuation translatedText (translationTo c)
                     (punctuationStyle c) True])
            else (translatedText, [call]))
      in case translated world of
           Translation_throws \<Rightarrow> (punctuatedTranscript, [call])
         | Translation_object t failed \<Rightarrow> punctuate (orTranscript t)
         | Translation_value v \<Rightarrow> punctuate (orTranscript v))"

definition keepBufferSize :: nat where
  "keepBufferSize = 16000"

text \<open>\<^verbatim>\<open>result.confidence || 0.9\<close>\<close>

definition confidence_or_default :: "rat \<Rightarrow> rat" where
  "confidence_or_default c = (if c = 0 then 9 / 10 else c)"

text \<open>
  \<^verbatim>\<open>processBatchTranscription\<close>, the pipeline run for an interim result. \<open>now\<close> is the
  reading of the clock where the run reads it; every path reads it at most once.
\<close>

definition processBatchTranscription ::
  "replies \<Rightarrow> int \<Rightarrow> client_connection \<Rightarrow> client_connection \<times> effect list" where
  "processBatchTranscription world now c =
     (case Int16Array (audioBuffer c) of
        Inl e \<Rightarrow> (c, [Emit (Transcription_error ''Transcription failed: '' e)])
      | Inr audioArray \<Rightarrow>
          if \<not> hasSound audioArray
          then (c\<lparr>lastTranscriptionTime := now, audioBuffer := []\<rparr>, [])
          else
            let result = recognition world;
                call = Call_transcribeBuffer (audioBuffer c) (speechLanguage c)
            in if stt_transcript result \<noteq> [] \<and> trim (stt_transcript result) \<noteq> []
               then
                 let rawTranscript = trim (stt_transcript result)
                 in if \<not> isSignificantlyDifferent rawTranscript (lastTranscript c)
                    then (c\<lparr>lastTranscriptionTime := now\<rparr>, [call])
                    else
                      let (punctuatedTranscript, calls1) =
                            punctuate_transcript world c (stt_transcript result) rawTranscript;
                          (punctuatedTranslation, calls2) =
                            translate_interim world c punctuatedTranscript;
                          isTranslationDifferent =
                            (lastTranslation c = [] \<or>
                             punctuatedTranslation \<noteq> lastTranslation c);
                          sent =
                            (if isTranslationDifferent
                             then [Emit (Transcription_result
                                     \<lparr>transcript = punctuatedTranscript,
                                      translation = punctuatedTranslation,
                                      confidence = confidence_or_default (stt_confidence result),
                                      isFinal = False, speaker = ''Speaker'',
                                      punctuated = True\<rparr>)]
                             else [])
                      in (c\<lparr>lastTranscriptionTime := now,
                            lastTranscript := punctuatedTranscript,
                            lastTranslation := punctuatedTranslation,
                            audioBuffer :=
                              (if length (audioBuffer c) > keepBufferSize
                               then drop (length (audioBuffer c) - keepBufferSize) (audioBuffer c)
                               else audioBuffer c)\<rparr>,
                          [call] @ calls1 @ calls2 @ sent)
               else (c, [call]))"

definition bufferSizeThreshold :: nat where
  "bufferSizeThreshold = 16000 * 2"

definition minAudioDuration :: int where
  "minAudioDuration = 1000"

text \<open>
  The handler of \<^verbatim>\<open>audio-data\<close>, for a frame that is an array of whole numbers.
  \<open>now\<close> is the clock when the frame has been appended and \<open>later\<close> the clock inside
  the pipeline run.
\<close>

definition on_audio_data ::
  "replies \<Rightarrow> int \<Rightarrow> int \<Rightarrow> int list \<Rightarrow> client_connection \<Rightarrow> client_connection \<times> effect list" where
  "on_audio_data world now later audioData c =
     (if \<not> isTranscribing c then (c, [])
      else case audioChunk audioData of
             Inl e \<Rightarrow> (c, [Emit (Transcription_error ''Audio processing failed: '' e)])
           | Inr chunk \<Rightarrow>
               let c1 = c\<lparr>audioBuffer := audioBuffer c @ chunk\<rparr>;
                   timeSinceLastTranscription = now - lastTranscriptionTime c1
               in if length (audioBuffer c1) \<ge> bufferSizeThreshold \<and>
                     timeSinceLastTranscription \<ge> minAudioDuration
                  then processBatchTranscription world later c1
                  else (c1, []))"

text \<open>
  The handler of \<^verbatim>\<open>stop-transcription\<close>. When the final transcript is too similar to
  the last one the handler returns at once, before the statement that clears the buffer.
\<close>

definition on_stop_transcription ::
  "replies \<Rightarrow> client_connection \<Rightarrow> client_connection \<times> effect list" where
  "on_stop_transcription world c0 =
     (let c = c0\<lparr>isTranscribing := False\<rparr>
      in if length (audioBuffer c) > 0
         then
           let result = recognition world;
               call = Call_transcribeBuffer (audioBuffer c) (speechLanguage c)
           in if stt_transcript result \<noteq> [] \<and> trim (stt_transcript result) \<noteq> []
              then
                let finalRawTranscript = trim (stt_transcript result)
                in if \<not> isFinalDifferent finalRawTranscript (lastTranscript c)
                   then (c, [call])
                   else
                     let (punctuatedTranscript, calls1) =
                           punctuate_transcript world c (stt_transcript result)
                             finalRawTranscript;
                         (punctuatedTranslation, calls2) =
                           translate_final world c punctuatedTranscript
                     in (c\<lparr>audioBuffer := []\<rparr>,
                         [call] @ calls1 @ calls2 @
                         [Emit (Transcription_result
                            \<lparr>transcript = punctuatedTranscript,
                             translation = punctuatedTranslation,
                             confidence = confidence_or_default (stt_confidence result),
                             isFinal = True, speaker = ''Speaker'', punctuated = True\<rparr>)])
              else (c\<lparr>audioBuffer := []\<rparr>, [call])
         else (c\<lparr>audioBuffer := []\<rparr>, []))"

section \<open>Sample inputs\<close>

text \<open>
  A translation of a Czech greeting as the service builds it at clock reading 5, and the
  cache that holds only this translation.
\<close>

definition sample_translation :: translation_result where
  "sample_translation =
     \<lparr>originalText = ''Ahoj'', translatedText = ''Hello'', sourceLanguage = ''cs'',
      targetLanguage = ''EN-US'', error = None, timestamp = 5, fromCache = False,
      cachedAt = None\<rparr>"

definition sample_cache :: translation_cache where
  "sample_cache = [(''ahoj|EN-US'', sample_translation\<lparr>cachedAt := Some 5\<rparr>)]"

text \<open>A run of 1001 insertions under distinct keys.\<close>

definition sample_insertions :: "(string \<times> translation_result \<times> int) list" where
  "sample_insertions = map (\<lambda>n. (replicate n (CHR ''k''), sample_translation, int n)) [0..<1001]"

text \<open>
  What the collaborators answer in a run that recognises a greeting, punctuates it and
  translates it, and in a run that hears a longer sentence with the same answers
  otherwise.
\<close>

definition sample_replies :: replies where
  "sample_replies =
     \<lparr>recognition =
        \<lparr>stt_transcript = '' ahoj '', stt_confidence = 0, stt_language = ''cs-CZ'',
         stt_error = None, stt_provider = None\<rparr>,
      transcript_punctuation = Punctuation_result True ''Ahoj.'',
      translated = Translation_object ''hello'' False,
      translation_punctuation = Punctuation_result True ''Hello.''\<rparr>"

definition sample_replies_longer :: replies where
  "sample_replies_longer =
     sample_replies\<lparr>recognition :=
        \<lparr>stt_transcript = ''dobry den vsem'', stt_confidence = 8 / 10,
         stt_language = ''cs-CZ'', stt_error = None, stt_provider = None\<rparr>\<rparr>"

text \<open>
  Sessions that have started at clock reading 0. The first has received 16000 samples, one
  second of audio: a loud one and silence after it. The second is the first with the
  last transcript and translation that a pipeline run on the sample replies records. The
  third lacks one sample to the threshold, and the fourth has received a second of
  silence.
\<close>

definition sample_session :: client_connection where
  "sample_session =
     (fst (on_start_transcription 0 new_connection))
       \<lparr>audioBuffer := [0, 16] @ replicate 31998 0\<rparr>"

definition sample_session_after_run :: client_connection where
  "sample_session_after_run =
     sample_session\<lparr>lastTranscriptionTime := 2000, lastTranscript := ''Ahoj.'',
                     lastTranslation := ''Hello.''\<rparr>"

definition sample_session_nearly_full :: client_connection where
  "sample_session_nearly_full =
     (fst (on_start_transcription 0 new_connection))
       \<lparr>audioBuffer := [0, 16] @ replicate 31996 0\<rparr>"

definition sample_session_quiet :: client_connection where
  "sample_session_quiet =
     (fst (on_start_transcription 0 new_connection))\<lparr>audioBuffer := replicate 32000 0\<rparr>"

text \<open>
  What the collaborators answer when recognition hears nothing: an empty transcript. The
  session that lacks one sample to the threshold after a frame with the one sample 258,
  and after a second such frame.
\<close>

definition sample_replies_blank :: replies where
  "sample_replies_blank =
     sample_replies\<lparr>recognition :=
        \<lparr>stt_transcript = [], stt_confidence = 0, stt_language = ''cs-CZ'',
         stt_error = None, stt_provider = None\<rparr>\<rparr>"

definition sample_session_dispatched :: client_connection where
  "sample_session_dispatched =
     sample_session_nearly_full\<lparr>audioBuffer := [0, 16] @ replicate 31996 0 @ [2, 1]\<rparr>"

definition sample_session_dispatched_again :: client_connection where
  "sample_session_dispatched_again =
     sample_session_nearly_full\<lparr>audioBuffer := [0, 16] @ replicate 31996 0 @ [2, 1, 2, 1]\<rparr>"

text \<open>The backends when every request times out.\<close>

definition sample_backends_down :: backends where
  "sample_backends_down =
     \<lparr>google = Throws ''timeout'', whisper = Throws ''timeout'', deepgram = Throws ''timeout''\<rparr>"

section \<open>Properties of strings and maps\<close>

lemma trim_Nil [simp]: "trim [] = []"
  by (simp add: trim_def)

lemma startsWith_prefix: "startsWith s p \<longleftrightarrow> prefix p s"
  by (induction s p rule: startsWith.induct) auto

lemma str_includes_sublist: "str_includes s p \<longleftrightarrow> sublist p s"
  by (induction s) (simp_all add: startsWith_prefix sublist_Cons_right)

lemma length_map_set: "length (map_set k v m) \<le> Suc (length m)"
  by (induction m) auto

lemma length_map_delete_first: "length (map_delete (fst e) (e # m)) \<le> length m"
  by (simp add: map_delete_def)

lemma map_keys_map_set:
  "map_keys (map_set k v m) = (if k \<in> set (map_keys m) then map_keys m else map_keys m @ [k])"
  by (induction m) (auto simp: map_keys_def)

lemma map_keys_map_delete: "map_keys (map_delete k m) = filter (\<lambda>k'. k' \<noteq> k) (map_keys m)"
  by (induction m) (auto simp: map_keys_def map_delete_def)

lemma map_delete_first_distinct:
  "distinct (map_keys (e # m)) \<Longrightarrow> map_delete (fst e) (e # m) = m"
  by (auto simp: map_delete_def map_keys_def filter_id_conv rev_image_eqI)

lemma map_get_map_set: "map_get k (map_set k v m) = Some v"
  by (induction m) (auto simp: map_get_def)

lemma map_get_map_delete: "map_get k (map_delete k m) = None"
  by (induction m) (auto simp: map_get_def map_delete_def)

lemma map_get_None_iff: "map_get k m = None \<longleftrightarrow> k \<notin> set (map_keys m)"
  by (simp add: map_get_def map_keys_def map_of_eq_None_iff)

section \<open>The translation cache\<close>

lemma addToCache_bound:
  assumes le: "length c \<le> CACHE_MAX_SIZE"
  shows "length (addToCache k r t c) \<le> CACHE_MAX_SIZE"
proof (cases "length c \<ge> CACHE_MAX_SIZE")
  case True
  then have "c \<noteq> []" by (auto simp: CACHE_MAX_SIZE_def)
  then obtain e m where c: "c = e # m" by (cases c) auto
  have "length (map_delete (fst e) (e # m)) \<le> length m" by (rule length_map_delete_first)
  then have "length (map_set k (r\<lparr>cachedAt := Some t\<rparr>) (map_delete (fst e) (e # m)))
               \<le> Suc (length m)"
    using length_map_set[of k "r\<lparr>cachedAt := Some t\<rparr>" "map_delete (fst e) (e # m)"]
    by linarith
  with le c True show ?thesis by (simp add: addToCache_def)
next
  case False
  then show ?thesis
    using length_map_set[of k "r\<lparr>cachedAt := Some t\<rparr>" c] by (simp add: addToCache_def)
qed

lemma insert_all_snoc: "insert_all (ins @ [(k, r, t)]) c = addToCache k r t (insert_all ins c)"
  by (simp add: insert_all_def)

lemma insert_all_bound: "length (insert_all ins []) \<le> CACHE_MAX_SIZE"
proof (induction ins rule: rev_induct)
  case Nil
  then show ?case by (simp add: insert_all_def)
next
  case (snoc x xs)
  obtain k r t where x: "x = (k, r, t)" by (cases x) auto
  show ?case unfolding x insert_all_snoc by (rule addToCache_bound) (rule snoc.IH)
qed

text \<open>After insertions under distinct keys the cache holds the newest keys, oldest first.\<close>

lemma insert_all_keys:
  "distinct (map fst ins) \<Longrightarrow>
   map_keys (insert_all ins []) = drop (length ins - CACHE_MAX_SIZE) (map fst ins)"
proof (induction ins rule: rev_induct)
  case Nil
  then show ?case by (simp add: insert_all_def map_keys_def)
next
  case (snoc x xs)
  obtain k r t where x: "x = (k, r, t)" by (cases x) auto
  let ?c = "insert_all xs []"
  from snoc.prems have dist: "distinct (map fst xs)" and fresh: "k \<notin> set (map fst xs)"
    by (auto simp: x)
  have keys: "map_keys ?c = drop (length xs - CACHE_MAX_SIZE) (map fst xs)"
    using snoc.IH dist by simp
  have len: "length ?c = min (length xs) CACHE_MAX_SIZE"
    using arg_cong[OF keys, of length] by (simp add: map_keys_def min_def)
  have dc: "distinct (map_keys ?c)" using keys dist by simp
  have fresh_c: "\<And>m. set (map_keys m) \<subseteq> set (map_keys ?c) \<Longrightarrow> k \<notin> set (map_keys m)"
  proof -
    fix m assume sub: "set (map_keys m) \<subseteq> set (map_keys ?c)"
    have "set (map_keys ?c) \<subseteq> set (map fst xs)"
      unfolding keys by (rule set_drop_subset)
    with sub fresh show "k \<notin> set (map_keys m)" by blast
  qed
  show ?case
  proof (cases "length ?c \<ge> CACHE_MAX_SIZE")
    case True
    then have big: "length xs \<ge> CACHE_MAX_SIZE" using len by simp
    from True have "?c \<noteq> []" by (auto simp: CACHE_MAX_SIZE_def)
    then obtain e m where c: "?c = e # m" by (cases ?c) auto
    have del: "map_delete (fst e) (e # m) = m"
      using dc c by (simp add: map_delete_first_distinct)
    have km: "map_keys m = drop (Suc (length xs - CACHE_MAX_SIZE)) (map fst xs)"
      using keys c by (simp add: map_keys_def) (metis drop_Suc list.sel(3) tl_drop)
    have "k \<notin> set (map_keys m)" using fresh_c[of m] c by (auto simp: map_keys_def)
    then have "map_keys (addToCache k r t ?c) = map_keys m @ [k]"
      using True c del by (simp add: addToCache_def map_keys_map_set)
    also have "\<dots> = drop (length (xs @ [x]) - CACHE_MAX_SIZE) (map fst (xs @ [x]))"
    proof -
      have "Suc 0 - CACHE_MAX_SIZE = 0" by (simp add: CACHE_MAX_SIZE_def)
      then show ?thesis using km big by (simp add: x Suc_diff_le)
    qed
    finally show ?thesis by (simp add: x insert_all_snoc)
  next
    case False
    then have small: "length xs < CACHE_MAX_SIZE" using len by simp
    have "k \<notin> set (map_keys ?c)" using fresh_c[of ?c] by simp
    then have "map_keys (addToCache k r t ?c) = map_keys ?c @ [k]"
      using False by (simp add: addToCache_def map_keys_map_set)
    then show ?thesis using keys small by (simp add: x insert_all_snoc)
  qed
qed

lemma insert_one_too_many:
  assumes "distinct (map fst ins)" and "length ins = CACHE_MAX_SIZE + 1"
  shows "length (insert_all ins []) = CACHE_MAX_SIZE \<and>
         map_keys (insert_all ins []) = tl (map fst ins) \<and>
         fst (hd ins) \<notin> set (map_keys (insert_all ins []))"
proof -
  from assms(2) obtain x xs where ins: "ins = x # xs" by (cases ins) auto
  have keys: "map_keys (insert_all ins []) = tl (map fst ins)"
    using insert_all_keys[OF assms(1)] assms(2) by (simp add: ins)
  have "length (map_keys (insert_all ins [])) = CACHE_MAX_SIZE"
    unfolding keys using assms(2) by simp
  then have len: "length (insert_all ins []) = CACHE_MAX_SIZE" by (simp add: map_keys_def)
  have "fst (hd ins) \<notin> set (tl (map fst ins))" using assms(1) by (simp add: ins)
  with keys len show ?thesis by simp
qed

lemma getFromCache_keys:
  "map_keys (snd (getFromCache key now c)) =
     (if fst (getFromCache key now c) = None then filter (\<lambda>k. k \<noteq> key) (map_keys c)
      else map_keys c)"
proof (cases "map_get key c")
  case None
  then have "key \<notin> set (map_keys c)" by (simp add: map_get_None_iff)
  then have "filter (\<lambda>k. k \<noteq> key) (map_keys c) = map_keys c"
    by (auto simp: filter_id_conv)
  with None show ?thesis by (simp add: getFromCache_def)
next
  case (Some e)
  then show ?thesis by (simp add: getFromCache_def map_keys_map_delete)
qed

lemma replicate_inj_on: "inj_on (\<lambda>n. replicate n c) A"
  by (auto simp: inj_on_def dest: arg_cong[where f = length])

text \<open>
  C5. The cache never holds more than \<open>CACHE_MAX_SIZE\<close> entries: not after any run of
  insertions into the empty cache, and an insertion into a cache within the bound stays
  within it. Inserting \<open>CACHE_MAX_SIZE + 1\<close> distinct keys leaves exactly
  \<open>CACHE_MAX_SIZE\<close> entries, the keys inserted after the first one in their order, and the
  first key is gone. A read does not move an entry: it leaves the keys and their order as
  they are on a hit, and takes only the key read away otherwise.
\<close>

theorem cache_bounded_oldest_evicted:
  "length (insert_all ins []) \<le> CACHE_MAX_SIZE \<and>
   (length c \<le> CACHE_MAX_SIZE \<longrightarrow> length (addToCache key result now c) \<le> CACHE_MAX_SIZE) \<and>
   (distinct (map fst ins) \<and> length ins = CACHE_MAX_SIZE + 1 \<longrightarrow>
      length (insert_all ins []) = CACHE_MAX_SIZE \<and>
      map_keys (insert_all ins []) = tl (map fst ins) \<and>
      fst (hd ins) \<notin> set (map_keys (insert_all ins []))) \<and>
   map_keys (snd (getFromCache key now c)) =
     (if fst (getFromCache key now c) = None then filter (\<lambda>k. k \<noteq> key) (map_keys c)
      else map_keys c)"
  using insert_all_bound[of ins] addToCache_bound[of c key result now]
    insert_one_too_many[of ins] getFromCache_keys[of key now c]
  by blast

theorem cache_bounded_oldest_evicted_witness:
  "length sample_cache \<le> CACHE_MAX_SIZE \<and>
   distinct (map fst sample_insertions) \<and>
   length sample_insertions = CACHE_MAX_SIZE + 1 \<and>
   length (addToCache ''nazdar|EN-US'' sample_translation 7 sample_cache) \<le> CACHE_MAX_SIZE \<and>
   length (insert_all sample_insertions []) = CACHE_MAX_SIZE \<and>
   map_keys (insert_all sample_insertions []) = tl (map fst sample_insertions) \<and>
   fst (hd sample_insertions) \<notin> set (map_keys (insert_all sample_insertions []))"
proof -
  have small: "length sample_cache \<le> CACHE_MAX_SIZE"
    by (simp add: sample_cache_def CACHE_MAX_SIZE_def)
  have dist: "distinct (map fst sample_insertions)"
    by (simp add: sample_insertions_def comp_def distinct_map replicate_inj_on)
  have len: "length sample_insertions = CACHE_MAX_SIZE + 1"
    by (simp add: sample_insertions_def CACHE_MAX_SIZE_def)
  from cache_bounded_oldest_evicted[of sample_insertions sample_cache "''nazdar|EN-US''"
      sample_translation 7] small dist len
  show ?thesis by blast
qed

section \<open>The translation service\<close>

lemma map_get_addToCache: "map_get k (addToCache k r t c) = Some (r\<lparr>cachedAt := Some t\<rparr>)"
  by (simp add: addToCache_def Let_def map_get_map_set)

lemma getFromCache_fresh:
  assumes "map_get k c = Some e" "\<not> expired now e"
  shows "getFromCache k now c = (Some e, c)"
  using assms by (simp add: getFromCache_def)

lemma getFromCache_expired:
  assumes "map_get k c = Some e" "expired now e"
  shows "getFromCache k now c = (None, map_delete k c)"
  using assms by (simp add: getFromCache_def)

text \<open>A call that asked the backend and got no error went through every guard.\<close>

lemma translateText_from_backend:
  assumes "translateText translator backend now later text target c = (ReturnResult r, c', 1)"
    and "error r = None"
  shows "translator \<and> trim text \<noteq> [] \<and>
         backend = Inr (translatedText r) \<and>
         c' = addToCache (getCacheKey text target) r later
                (snd (getFromCache (getCacheKey text target) now c)) \<and>
         cachedAt r = None \<and> \<not> fromCache r"
  using assms
  by (auto simp: translateText_def Let_def split: if_splits prod.splits option.splits sum.splits)

lemma translateText_hit:
  assumes "translator" "trim text \<noteq> []"
    "map_get (getCacheKey text target) c = Some e" "\<not> expired now e"
  shows "translateText translator backend now later text target c =
         (ReturnResult (e\<lparr>fromCache := True, timestamp := now\<rparr>), c, 0)"
proof -
  from assms(2) have "text \<noteq> []" by auto
  with assms show ?thesis
    by (simp add: translateText_def Let_def getFromCache_fresh)
qed

lemma translateText_expired:
  assumes "translator" "trim text \<noteq> []"
    "map_get (getCacheKey text target) c = Some e" "expired now e"
  shows "snd (snd (translateText translator backend now later text target c)) = 1"
proof -
  from assms(2) have "text \<noteq> []" by auto
  with assms show ?thesis
    by (simp add: translateText_def Let_def getFromCache_expired split: sum.splits)
qed

text \<open>
  C6. When a call of \<open>translateText\<close> has asked the backend once and got a translation,
  a second call for the same text and target language that reads the cache within the
  time to live of the insertion asks the backend nothing, whatever the backend would
  answer, leaves the cache as it is and returns \<open>fromCache = True\<close> with the same
  translated text: the two calls make exactly one request. The cache key is the text in
  lower case, trimmed, then a bar and the target language. An entry older than the time to
  live is deleted by the read, which answers nothing, and \<open>translateText\<close> then asks the
  backend as on a miss.
\<close>

theorem translate_twice_one_request:
  "(translateText translator backend1 now1 later1 text target cache0 =
      (ReturnResult r1, cache1, 1) \<and>
    error r1 = None \<and> now2 - later1 \<le> CACHE_TTL \<longrightarrow>
      (\<exists>r2. translateText translator backend2 now2 later2 text target cache1 =
               (ReturnResult r2, cache1, 0) \<and>
            fromCache r2 \<and> translatedText r2 = translatedText r1)) \<and>
   getCacheKey text target = trim (toLowerCase text) @ ''|'' @ target \<and>
   (map_get key c = Some e \<and> cachedAt e = Some t \<and> now - t > CACHE_TTL \<longrightarrow>
      getFromCache key now c = (None, map_delete key c) \<and>
      map_get key (map_delete key c) = None) \<and>
   (translator \<and> trim text \<noteq> [] \<and> map_get (getCacheKey text target) c = Some e \<and>
    cachedAt e = Some t \<and> now - t > CACHE_TTL \<longrightarrow>
      snd (snd (translateText translator backend now later text target c)) = 1)"
proof -
  have twice: "\<exists>r2. translateText translator backend2 now2 later2 text target cache1 =
               (ReturnResult r2, cache1, 0) \<and>
            fromCache r2 \<and> translatedText r2 = translatedText r1"
    if first: "translateText translator backend1 now1 later1 text target cache0 =
                 (ReturnResult r1, cache1, 1)"
      and ok: "error r1 = None" and ttl: "now2 - later1 \<le> CACHE_TTL"
  proof -
    from translateText_from_backend[OF first ok]
    have tr: translator and nb: "trim text \<noteq> []"
      and c1: "cache1 = addToCache (getCacheKey text target) r1 later1
                (snd (getFromCache (getCacheKey text target) now1 cache0))"
      by auto
    have got: "map_get (getCacheKey text target) cache1 = Some (r1\<lparr>cachedAt := Some later1\<rparr>)"
      unfolding c1 by (rule map_get_addToCache)
    have fresh: "\<not> expired now2 (r1\<lparr>cachedAt := Some later1\<rparr>)"
      using ttl by (simp add: expired_def)
    show ?thesis
      using translateText_hit[OF tr nb got fresh, of backend2 later2] by simp
  qed
  have old: "expired now e" if "cachedAt e = Some t" "now - t > CACHE_TTL"
    using that by (simp add: expired_def)
  show ?thesis
    using twice old getFromCache_expired[of key c e now] map_get_map_delete[of key c]
      translateText_expired[of translator "text" target c e now backend later]
    by (simp add: getCacheKey_def)
qed

theorem translate_twice_one_request_witness:
  "translateText True (Inr ''Hello'') 0 5 ''Ahoj'' ''EN-US'' [] =
     (ReturnResult sample_translation, sample_cache, 1) \<and>
   error sample_translation = None \<and> 9 - 5 \<le> CACHE_TTL \<and>
   (\<exists>r2. translateText True (Inl ''timeout'') 9 12 ''Ahoj'' ''EN-US'' sample_cache =
            (ReturnResult r2, sample_cache, 0) \<and>
         fromCache r2 \<and> translatedText r2 = translatedText sample_translation) \<and>
   map_get ''ahoj|EN-US'' sample_cache = Some (sample_translation\<lparr>cachedAt := Some 5\<rparr>) \<and>
   cachedAt (sample_translation\<lparr>cachedAt := Some 5\<rparr>) = Some 5 \<and>
   86400006 - 5 > CACHE_TTL \<and>
   getFromCache ''ahoj|EN-US'' 86400006 sample_cache =
     (None, map_delete ''ahoj|EN-US'' sample_cache) \<and>
   trim ''Ahoj'' \<noteq> [] \<and>
   map_get (getCacheKey ''Ahoj'' ''EN-US'') sample_cache =
     Some (sample_translation\<lparr>cachedAt := Some 5\<rparr>) \<and>
   snd (snd (translateText True (Inr ''Hello'') 86400006 86400009 ''Ahoj'' ''EN-US''
               sample_cache)) = 1"
proof -
  have first: "translateText True (Inr ''Hello'') 0 5 ''Ahoj'' ''EN-US'' [] =
                 (ReturnResult sample_translation, sample_cache, 1)"
    by code_simp
  have ok: "error sample_translation = None" by code_simp
  have ttl: "9 - 5 \<le> CACHE_TTL" by code_simp
  have got: "map_get ''ahoj|EN-US'' sample_cache =
               Some (sample_translation\<lparr>cachedAt := Some 5\<rparr>)"
    by code_simp
  have at: "cachedAt (sample_translation\<lparr>cachedAt := Some 5\<rparr>) = Some 5" by simp
  have late: "86400006 - 5 > CACHE_TTL" by code_simp
  have nb: "trim ''Ahoj'' \<noteq> []" by code_simp
  have key: "getCacheKey ''Ahoj'' ''EN-US'' = ''ahoj|EN-US''" by code_simp
  from translate_twice_one_request[of True "Inr ''Hello''" 0 5 "''Ahoj''" "''EN-US''" "[]"
      sample_translation sample_cache 9 "Inl ''timeout''" 12 "''ahoj|EN-US''" sample_cache
      "sample_translation\<lparr>cachedAt := Some 5\<rparr>" 5 86400006 "Inr ''Hello''" 86400009]
    first ok ttl got at late nb key
  show ?thesis by simp
qed

text \<open>
  C3, as amended. When \<open>translateText\<close> asks the backend and the request fails, it returns
  a result object and raises nothing: the translation in it is the error's message inside
  \<open>[Translation Error: ...]\<close>, the original text stays in \<open>originalText\<close>, \<open>error\<close>
  holds the message, and nothing is added to the cache.
\<close>

theorem failed_request_result:
  "snd (snd (translateText translator (Inl message) now later text target c)) = 1 \<longrightarrow>
     translateText translator (Inl message) now later text target c =
       (ReturnResult
          \<lparr>originalText = text,
           translatedText = ''[Translation Error: '' @ message @ '']'',
           sourceLanguage = ''cs'', targetLanguage = target,
           error = Some message, timestamp = later, fromCache = False, cachedAt = None\<rparr>,
        snd (getFromCache (getCacheKey text target) now c), 1)"
  by (auto simp: translateText_def Let_def split: if_splits prod.splits option.splits)

theorem failed_request_result_witness:
  "snd (snd (translateText True (Inl ''timeout'') 0 1 ''Ahoj'' ''EN-US'' [])) = 1 \<and>
   translateText True (Inl ''timeout'') 0 1 ''Ahoj'' ''EN-US'' [] =
     (ReturnResult
        \<lparr>originalText = ''Ahoj'',
         translatedText = ''[Translation Error: '' @ ''timeout'' @ '']'',
         sourceLanguage = ''cs'', targetLanguage = ''EN-US'',
         error = Some ''timeout'', timestamp = 1, fromCache = False, cachedAt = None\<rparr>,
      snd (getFromCache (getCacheKey ''Ahoj'' ''EN-US'') 0 []), 1)"
proof -
  have asked: "snd (snd (translateText True (Inl ''timeout'') 0 1 ''Ahoj'' ''EN-US'' [])) = 1"
    by code_simp
  from failed_request_result[of True "''timeout''" 0 1 "''Ahoj''" "''EN-US''" "[]"] asked
  show ?thesis by blast
qed

text \<open>
  The claim as stated fails: for the text \<open>Ahoj\<close> and a request that times out, the
  translation returned is not the original text.
\<close>

theorem failed_request_text_not_original:
  "translateText True (Inl ''timeout'') 0 1 ''Ahoj'' ''EN-US'' [] =
     (ReturnResult
        \<lparr>originalText = ''Ahoj'', translatedText = ''[Translation Error: timeout]'',
         sourceLanguage = ''cs'', targetLanguage = ''EN-US'',
         error = Some ''timeout'', timestamp = 1, fromCache = False, cachedAt = None\<rparr>,
      [], 1) \<and>
   ''[Translation Error: timeout]'' \<noteq> ''Ahoj''"
  by code_simp

section \<open>The provider registry\<close>

lemma google_error_empty:
  "stt_error (googleSpeech_transcribeBuffer b a l) \<noteq> None \<Longrightarrow>
   stt_transcript (googleSpeech_transcribeBuffer b a l) = [] \<and>
   stt_confidence (googleSpeech_transcribeBuffer b a l) = 0"
  by (simp add: googleSpeech_transcribeBuffer_def Let_def
      split: if_splits reply.splits list.splits option.splits prod.splits)

lemma whisper_error_empty:
  "stt_error (whisper_transcribeBuffer b a l) \<noteq> None \<Longrightarrow>
   stt_transcript (whisper_transcribeBuffer b a l) = [] \<and>
   stt_confidence (whisper_transcribeBuffer b a l) = 0"
  by (simp add: whisper_transcribeBuffer_def Let_def
      split: if_splits reply.splits prod.splits)

lemma deepgram_error_empty:
  "stt_error (deepgram_transcribeBuffer b a l) \<noteq> None \<Longrightarrow>
   stt_transcript (deepgram_transcribeBuffer b a l) = [] \<and>
   stt_confidence (deepgram_transcribeBuffer b a l) = 0"
  by (simp add: deepgram_transcribeBuffer_def split: reply.splits prod.splits)

lemma google_throws:
  "stt_transcript (googleSpeech_transcribeBuffer (Throws msg) a l) = [] \<and>
   stt_confidence (googleSpeech_transcribeBuffer (Throws msg) a l) = 0 \<and>
   (stt_error (googleSpeech_transcribeBuffer (Throws msg) a l) = Some (Message msg) \<or>
    stt_error (googleSpeech_transcribeBuffer (Throws msg) a l) =
      Some (AudioBufferTooSmall (length a)))"
  by (simp add: googleSpeech_transcribeBuffer_def Let_def)

lemma whisper_throws:
  "stt_transcript (whisper_transcribeBuffer (Throws msg) a l) = [] \<and>
   stt_confidence (whisper_transcribeBuffer (Throws msg) a l) = 0 \<and>
   (stt_error (whisper_transcribeBuffer (Throws msg) a l) = Some (Message msg) \<or>
    stt_error (whisper_transcribeBuffer (Throws msg) a l) =
      Some (AudioBufferTooSmall (length a)))"
  by (simp add: whisper_transcribeBuffer_def Let_def)

lemma deepgram_throws:
  "stt_transcript (deepgram_transcribeBuffer (Throws msg) a l) = [] \<and>
   stt_confidence (deepgram_transcribeBuffer (Throws msg) a l) = 0 \<and>
   stt_error (deepgram_transcribeBuffer (Throws msg) a l) = Some (Message msg)"
  by (simp add: deepgram_transcribeBuffer_def)

lemma registered_have_config:
  "getProviderConfig ''google-speech'' \<noteq> None"
  "getProviderConfig ''openai-whisper'' \<noteq> None"
  "getProviderConfig ''deepgram-nova-3'' \<noteq> None"
  by (simp_all add: getProviderConfig_def PROVIDER_CONFIG_def)

lemma transcribeBuffer_google:
  "transcribeBuffer toLang world ''google-speech'' audio lang =
     googleSpeech_transcribeBuffer (google world) audio lang"
  using registered_have_config(1) by (auto simp: transcribeBuffer_def)

lemma transcribeBuffer_whisper:
  "transcribeBuffer toLang world ''openai-whisper'' audio lang =
     whisper_transcribeBuffer (whisper world) audio (toLang lang)"
  using registered_have_config(2) by (auto simp: transcribeBuffer_def)

lemma transcribeBuffer_deepgram:
  "transcribeBuffer toLang world ''deepgram-nova-3'' audio lang =
     deepgram_transcribeBuffer (deepgram world) audio (toLang lang)"
  using registered_have_config(3) by (auto simp: transcribeBuffer_def)

lemma transcribeBuffer_other:
  assumes "p \<noteq> ''google-speech''" "p \<noteq> ''openai-whisper''" "p \<noteq> ''deepgram-nova-3''"
  shows "stt_transcript (transcribeBuffer toLang world p audio lang) = [] \<and>
         stt_confidence (transcribeBuffer toLang world p audio lang) = 0"
  using assms by (simp add: transcribeBuffer_def split: option.splits)

text \<open>
  C9. For every audio segment, language and active provider: when the provider's backend
  request throws, \<open>transcribeBuffer\<close> returns a result with an empty transcript, zero
  confidence and an error, the thrown message or, for a segment the provider refuses
  before it asks, the complaint about its size. The function returns a result in every
  case, and every result that carries an error has an empty transcript and zero
  confidence.
\<close>

theorem recognition_failure_contained:
  "(backend_throws world currentProvider msg \<longrightarrow>
      stt_transcript (transcribeBuffer toLang world currentProvider audio lang) = [] \<and>
      stt_confidence (transcribeBuffer toLang world currentProvider audio lang) = 0 \<and>
      (stt_error (transcribeBuffer toLang world currentProvider audio lang) = Some (Message msg) \<or>
       stt_error (transcribeBuffer toLang world currentProvider audio lang) =
         Some (AudioBufferTooSmall (length audio)))) \<and>
   (stt_error (transcribeBuffer toLang world currentProvider audio lang) \<noteq> None \<longrightarrow>
      stt_transcript (transcribeBuffer toLang world currentProvider audio lang) = [] \<and>
      stt_confidence (transcribeBuffer toLang world currentProvider audio lang) = 0)"
proof -
  consider (g) "currentProvider = ''google-speech''" | (w) "currentProvider = ''openai-whisper''"
    | (d) "currentProvider = ''deepgram-nova-3''"
    | (o) "currentProvider \<noteq> ''google-speech''" "currentProvider \<noteq> ''openai-whisper''"
          "currentProvider \<noteq> ''deepgram-nova-3''"
    by blast
  then show ?thesis
  proof cases
    case g
    show ?thesis
      unfolding g transcribeBuffer_google
      using google_throws[of msg audio lang] google_error_empty[of "google world" audio lang]
      by (auto simp: backend_throws_def)
  next
    case w
    show ?thesis
      unfolding w transcribeBuffer_whisper
      using whisper_throws[of msg audio "toLang lang"]
        whisper_error_empty[of "whisper world" audio "toLang lang"]
      by (auto simp: backend_throws_def)
  next
    case d
    show ?thesis
      unfolding d transcribeBuffer_deepgram
      using deepgram_throws[of msg audio "toLang lang"]
        deepgram_error_empty[of "deepgram world" audio "toLang lang"]
      by (auto simp: backend_throws_def)
  next
    case o
    then show ?thesis
      using transcribeBuffer_other[OF o, of toLang world audio lang]
      by (simp add: backend_throws_def)
  qed
qed

theorem recognition_failure_contained_witness:
  "backend_throws sample_backends_down ''deepgram-nova-3'' ''timeout'' \<and>
   stt_error (transcribeBuffer (takeWhile (\<lambda>c. c \<noteq> CHR ''-'')) sample_backends_down
                ''deepgram-nova-3'' [0, 16] ''cs-CZ'') \<noteq> None \<and>
   stt_transcript (transcribeBuffer (takeWhile (\<lambda>c. c \<noteq> CHR ''-'')) sample_backends_down
                     ''deepgram-nova-3'' [0, 16] ''cs-CZ'') = [] \<and>
   stt_confidence (transcribeBuffer (takeWhile (\<lambda>c. c \<noteq> CHR ''-'')) sample_backends_down
                     ''deepgram-nova-3'' [0, 16] ''cs-CZ'') = 0"
proof -
  have down: "backend_throws sample_backends_down ''deepgram-nova-3'' ''timeout''"
    by code_simp
  have err: "stt_error (transcribeBuffer (takeWhile (\<lambda>c. c \<noteq> CHR ''-'')) sample_backends_down
                ''deepgram-nova-3'' [0, 16] ''cs-CZ'') \<noteq> None"
    by code_simp
  from recognition_failure_contained[of sample_backends_down "''deepgram-nova-3''"
      "''timeout''" "takeWhile (\<lambda>c. c \<noteq> CHR ''-'')" "[0, 16]" "''cs-CZ''"] down err
  show ?thesis by blast
qed

lemma provider_key_deepgram: "provider_key ''deepgram-nova-3'' = ''DEEPGRAM_NOVA-3''"
  by code_simp

lemma deepgram_key_unknown: "map_of STT_PROVIDERS ''DEEPGRAM_NOVA-3'' = None"
  by code_simp

text \<open>
  C4. The claim does not hold of the code at the registered id \<open>deepgram-nova-3\<close>. Only
  the first hyphen of the id is replaced, so the property looked up is
  \<open>DEEPGRAM_NOVA-3\<close>, which the table does not have: the setter throws the error for an
  unknown provider, and the handler answers \<open>stt-provider-error\<close>, listing this very id
  among the valid ones, and leaves the active provider as it was.
\<close>

theorem deepgram_provider_rejected:
  "provider_key ''deepgram-nova-3'' = ''DEEPGRAM_NOVA-3'' \<and>
   setSTTProvider ''deepgram-nova-3'' currentProvider =
     (Some (UnknownSTTProvider ''deepgram-nova-3''), currentProvider) \<and>
   on_set_stt_provider ''deepgram-nova-3'' currentProvider =
     (Stt_provider_error (UnknownSTTProvider ''deepgram-nova-3'')
        [''google-speech'', ''openai-whisper'', ''deepgram-nova-3''],
      currentProvider)"
  by (simp add: on_set_stt_provider_def setSTTProvider_def provider_key_deepgram
      deepgram_key_unknown) (simp add: STT_PROVIDERS_def)

text \<open>
  The other two registered ids are accepted, in any spelling that the conversion takes to
  their property names, and an accepted request makes a registered id the active provider.
\<close>

lemma google_provider_accepted:
  "on_set_stt_provider ''google-speech'' currentProvider =
     (Stt_provider_updated ''google-speech'' (getProviderConfig ''google-speech''),
      ''google-speech'')"
proof -
  have "map_of STT_PROVIDERS (provider_key ''google-speech'') = Some ''google-speech''"
    by code_simp
  then show ?thesis by (simp add: on_set_stt_provider_def setSTTProvider_def)
qed

lemma whisper_provider_accepted:
  "on_set_stt_provider ''openai-whisper'' currentProvider =
     (Stt_provider_updated ''openai-whisper'' (getProviderConfig ''openai-whisper''),
      ''openai-whisper'')"
proof -
  have "map_of STT_PROVIDERS (provider_key ''openai-whisper'') = Some ''openai-whisper''"
    by code_simp
  then show ?thesis by (simp add: on_set_stt_provider_def setSTTProvider_def)
qed

lemma property_name_accepted:
  "on_set_stt_provider ''GOOGLE_SPEECH'' ''openai-whisper'' =
     (Stt_provider_updated ''GOOGLE_SPEECH'' (getProviderConfig ''google-speech''),
      ''google-speech'')"
proof -
  have "map_of STT_PROVIDERS (provider_key ''GOOGLE_SPEECH'') = Some ''google-speech''"
    by code_simp
  then show ?thesis by (simp add: on_set_stt_provider_def setSTTProvider_def)
qed

lemma accepted_is_registered:
  "fst (setSTTProvider provider currentProvider) = None \<Longrightarrow>
   snd (setSTTProvider provider currentProvider) \<in> snd ` set STT_PROVIDERS"
  by (auto simp: setSTTProvider_def split: option.splits dest: map_of_SomeD intro: rev_image_eqI)

lemma rejected_keeps_provider:
  "fst (setSTTProvider provider currentProvider) \<noteq> None \<Longrightarrow>
   on_set_stt_provider provider currentProvider =
     (Stt_provider_error (UnknownSTTProvider provider)
        [''google-speech'', ''openai-whisper'', ''deepgram-nova-3''],
      currentProvider)"
  by (auto simp: on_set_stt_provider_def setSTTProvider_def STT_PROVIDERS_def
      split: option.splits)

section \<open>The pipeline\<close>

lemma emitted_append: "emitted (xs @ ys) = emitted xs @ emitted ys"
  by (induction xs rule: emitted.induct) simp_all

lemma emitted_punctuate_transcript: "emitted (snd (punctuate_transcript world c t raw)) = []"
  by (simp add: punctuate_transcript_def)

lemma emitted_translate_interim: "emitted (snd (translate_interim world c t)) = []"
  by (simp add: translate_interim_def Let_def split: translation_reply.splits prod.splits)

lemma emitted_translate_final: "emitted (snd (translate_final world c t)) = []"
  by (simp add: translate_final_def Let_def split: translation_reply.splits prod.splits)

lemma recognition_calls_punctuate_transcript:
  "filter is_recognition_call (snd (punctuate_transcript world c t raw)) = []"
  by (simp add: punctuate_transcript_def)

lemma recognition_calls_translate_interim:
  "filter is_recognition_call (snd (translate_interim world c t)) = []"
  by (simp add: translate_interim_def Let_def split: translation_reply.splits prod.splits)

lemma recognition_calls_translate_final:
  "filter is_recognition_call (snd (translate_final world c t)) = []"
  by (simp add: translate_final_def Let_def split: translation_reply.splits prod.splits)

lemma hasSound_iff: "hasSound a \<longleftrightarrow> \<not> (\<forall>s \<in> set a. \<bar>s\<bar> \<le> 100)"
  by (auto simp: hasSound_def list_ex_iff not_le)

lemma loud_sample: "sint (word_cat (16 :: 8 word) (0 :: 8 word) :: 16 word) = 4096"
  by code_simp

subsection \<open>The paths of an interim run\<close>

lemma batch_odd:
  assumes "Int16Array (audioBuffer c) = Inl e"
  shows "processBatchTranscription world now c =
         (c, [Emit (Transcription_error ''Transcription failed: '' e)])"
  using assms by (simp add: processBatchTranscription_def)

lemma batch_silence:
  assumes "Int16Array (audioBuffer c) = Inr a" "\<not> hasSound a"
  shows "processBatchTranscription world now c =
         (c\<lparr>lastTranscriptionTime := now, audioBuffer := []\<rparr>, [])"
  using assms by (simp add: processBatchTranscription_def)

lemma batch_blank:
  assumes "Int16Array (audioBuffer c) = Inr a" "hasSound a"
    "trim (stt_transcript (recognition world)) = []"
  shows "processBatchTranscription world now c =
         (c, [Call_transcribeBuffer (audioBuffer c) (speechLanguage c)])"
  using assms by (simp add: processBatchTranscription_def Let_def)

lemma batch_duplicate:
  assumes "Int16Array (audioBuffer c) = Inr a" "hasSound a"
    "trim (stt_transcript (recognition world)) \<noteq> []"
    "\<not> isSignificantlyDifferent (trim (stt_transcript (recognition world))) (lastTranscript c)"
  shows "processBatchTranscription world now c =
         (c\<lparr>lastTranscriptionTime := now\<rparr>,
          [Call_transcribeBuffer (audioBuffer c) (speechLanguage c)])"
proof -
  from assms(3) have "stt_transcript (recognition world) \<noteq> []" by auto
  with assms show ?thesis by (simp add: processBatchTranscription_def Let_def)
qed

lemma batch_full:
  assumes "Int16Array (audioBuffer c) = Inr a" "hasSound a"
    "trim (stt_transcript (recognition world)) \<noteq> []"
    "isSignificantlyDifferent (trim (stt_transcript (recognition world))) (lastTranscript c)"
    "punctuate_transcript world c (stt_transcript (recognition world))
       (trim (stt_transcript (recognition world))) = (pt, calls1)"
    "translate_interim world c pt = (ptr, calls2)"
  shows "processBatchTranscription world now c =
         (c\<lparr>lastTranscriptionTime := now, lastTranscript := pt, lastTranslation := ptr,
            audioBuffer := (if length (audioBuffer c) > keepBufferSize
                            then drop (length (audioBuffer c) - keepBufferSize) (audioBuffer c)
                            else audioBuffer c)\<rparr>,
          [Call_transcribeBuffer (audioBuffer c) (speechLanguage c)] @ calls1 @ calls2 @
          (if lastTranslation c = [] \<or> ptr \<noteq> lastTranslation c
           then [Emit (Transcription_result
                   \<lparr>transcript = pt, translation = ptr,
                    confidence = confidence_or_default (stt_confidence (recognition world)),
                    isFinal = False, speaker = ''Speaker'', punctuated = True\<rparr>)]
           else []))"
proof -
  from assms(3) have "stt_transcript (recognition world) \<noteq> []" by auto
  with assms show ?thesis by (simp add: processBatchTranscription_def Let_def)
qed

lemma interim_result_only_if_different:
  assumes "list_ex is_result_event (emitted (snd (processBatchTranscription world now c)))"
  shows "trim (stt_transcript (recognition world)) \<noteq> [] \<and>
         isSignificantlyDifferent (trim (stt_transcript (recognition world))) (lastTranscript c)"
proof (cases "Int16Array (audioBuffer c)")
  case (Inl e)
  with assms show ?thesis by (simp add: batch_odd)
next
  case (Inr a)
  show ?thesis
  proof (cases "hasSound a")
    case False
    with Inr assms show ?thesis by (simp add: batch_silence)
  next
    case True
    show ?thesis
    proof (cases "trim (stt_transcript (recognition world)) = []")
      case blank: True
      with Inr True assms show ?thesis by (simp add: batch_blank)
    next
      case nonblank: False
      show ?thesis
      proof (cases "isSignificantlyDifferent (trim (stt_transcript (recognition world)))
                      (lastTranscript c)")
        case False
        with Inr True nonblank assms show ?thesis by (simp add: batch_duplicate)
      next
        case True
        with nonblank show ?thesis by simp
      qed
    qed
  qed
qed

lemma batch_recognition_calls:
  "filter is_recognition_call (snd (processBatchTranscription world now c)) =
     (case Int16Array (audioBuffer c) of
        Inl e \<Rightarrow> []
      | Inr a \<Rightarrow>
          if hasSound a then [Call_transcribeBuffer (audioBuffer c) (speechLanguage c)] else [])"
proof (cases "Int16Array (audioBuffer c)")
  case (Inl e)
  then show ?thesis by (simp add: batch_odd)
next
  case (Inr a)
  show ?thesis
  proof (cases "hasSound a")
    case False
    with Inr show ?thesis by (simp add: batch_silence)
  next
    case True
    show ?thesis
    proof (cases "trim (stt_transcript (recognition world)) = []")
      case blank: True
      with Inr True show ?thesis by (simp add: batch_blank)
    next
      case nonblank: False
      show ?thesis
      proof (cases "isSignificantlyDifferent (trim (stt_transcript (recognition world)))
                      (lastTranscript c)")
        case False
        with Inr True nonblank show ?thesis by (simp add: batch_duplicate)
      next
        case diff: True
        obtain pt calls1 where p: "punctuate_transcript world c
            (stt_transcript (recognition world)) (trim (stt_transcript (recognition world)))
            = (pt, calls1)"
          by (cases "punctuate_transcript world c (stt_transcript (recognition world))
                       (trim (stt_transcript (recognition world)))") auto
        obtain ptr calls2 where t: "translate_interim world c pt = (ptr, calls2)"
          by (cases "translate_interim world c pt") auto
        have r1: "filter is_recognition_call calls1 = []"
          using recognition_calls_punctuate_transcript[of world c
              "stt_transcript (recognition world)" "trim (stt_transcript (recognition world))"] p
          by simp
        have r2: "filter is_recognition_call calls2 = []"
          using recognition_calls_translate_interim[of world c pt] t by simp
        show ?thesis
          using Inr True r1 r2 by (simp add: batch_full[OF Inr True nonblank diff p t])
      qed
    qed
  qed
qed

subsection \<open>The paths of the final run\<close>

lemma stop_empty:
  assumes "audioBuffer c = []"
  shows "on_stop_transcription world c = (c\<lparr>isTranscribing := False, audioBuffer := []\<rparr>, [])"
  using assms by (simp add: on_stop_transcription_def Let_def)

lemma stop_blank:
  assumes "audioBuffer c \<noteq> []" "trim (stt_transcript (recognition world)) = []"
  shows "on_stop_transcription world c =
         (c\<lparr>isTranscribing := False, audioBuffer := []\<rparr>,
          [Call_transcribeBuffer (audioBuffer c) (speechLanguage c)])"
  using assms by (simp add: on_stop_transcription_def Let_def)

text \<open>The early return: the buffer stays as it was.\<close>

lemma stop_duplicate:
  assumes "audioBuffer c \<noteq> []" "trim (stt_transcript (recognition world)) \<noteq> []"
    "\<not> isFinalDifferent (trim (stt_transcript (recognition world))) (lastTranscript c)"
  shows "on_stop_transcription world c =
         (c\<lparr>isTranscribing := False\<rparr>,
          [Call_transcribeBuffer (audioBuffer c) (speechLanguage c)])"
proof -
  from assms(2) have "stt_transcript (recognition world) \<noteq> []" by auto
  with assms show ?thesis by (simp add: on_stop_transcription_def Let_def)
qed

lemma stop_full:
  assumes "audioBuffer c \<noteq> []" "trim (stt_transcript (recognition world)) \<noteq> []"
    "isFinalDifferent (trim (stt_transcript (recognition world))) (lastTranscript c)"
    "punctuate_transcript world (c\<lparr>isTranscribing := False\<rparr>)
       (stt_transcript (recognition world))
       (trim (stt_transcript (recognition world))) = (pt, calls1)"
    "translate_final world (c\<lparr>isTranscribing := False\<rparr>) pt = (ptr, calls2)"
  shows "on_stop_transcription world c =
         (c\<lparr>isTranscribing := False, audioBuffer := []\<rparr>,
          [Call_transcribeBuffer (audioBuffer c) (speechLanguage c)] @ calls1 @ calls2 @
          [Emit (Transcription_result
                   \<lparr>transcript = pt, translation = ptr,
                    confidence = confidence_or_default (stt_confidence (recognition world)),
                    isFinal = True, speaker = ''Speaker'', punctuated = True\<rparr>)])"
proof -
  from assms(2) have "stt_transcript (recognition world) \<noteq> []" by auto
  with assms show ?thesis by (simp add: on_stop_transcription_def Let_def)
qed

lemma final_result_only_if_different:
  assumes "list_ex is_result_event (emitted (snd (on_stop_transcription world c)))"
  shows "trim (stt_transcript (recognition world)) \<noteq> [] \<and>
         isFinalDifferent (trim (stt_transcript (recognition world))) (lastTranscript c)"
proof (cases "audioBuffer c = []")
  case True
  with assms show ?thesis by (simp add: stop_empty)
next
  case False
  show ?thesis
  proof (cases "trim (stt_transcript (recognition world)) = []")
    case blank: True
    with False assms show ?thesis by (simp add: stop_blank)
  next
    case nonblank: False
    show ?thesis
    proof (cases "isFinalDifferent (trim (stt_transcript (recognition world))) (lastTranscript c)")
      case dup: False
      with False nonblank assms show ?thesis by (simp add: stop_duplicate)
    next
      case True
      with nonblank show ?thesis by simp
    qed
  qed
qed


subsection \<open>Sample runs\<close>

lemma sample_heard: "trim (stt_transcript (recognition sample_replies)) = ''ahoj''"
  by code_simp

lemma sample_punctuated:
  "punctuate_transcript sample_replies c (stt_transcript (recognition sample_replies))
     (trim (stt_transcript (recognition sample_replies))) =
   (if aiPunctuationEnabled c
    then (''Ahoj.'',
          [Call_addPunctuation '' ahoj '' (translationFrom c) (punctuationStyle c) False])
    else (''ahoj'', []))"
  unfolding sample_heard by (simp add: punctuate_transcript_def sample_replies_def)

lemma sample_session_fields:
  "audioBuffer sample_session = [0, 16] @ replicate 31998 0" "isTranscribing sample_session"
  "lastTranscriptionTime sample_session = 0" "lastTranscript sample_session = []"
  "lastTranslation sample_session = []" "speechLanguage sample_session = ''cs-CZ''"
  "translationFrom sample_session = ''cs''" "translationTo sample_session = ''en''"
  "aiPunctuationEnabled sample_session" "punctuationStyle sample_session = ''formal''"
  by (simp_all add: sample_session_def on_start_transcription_def new_connection_def)

lemma sample_session_samples:
  "Int16Array (audioBuffer sample_session) = Inr (4096 # int16_samples (replicate 31998 0))"
  by (simp add: Int16Array_def sample_session_fields loud_sample)

lemma sample_session_kept:
  "drop 16000 (audioBuffer sample_session) = replicate 16000 0"
  by (simp add: sample_session_fields)

lemma sample_interim_run:
  "processBatchTranscription sample_replies 2000 sample_session =
     (sample_session\<lparr>lastTranscriptionTime := 2000, lastTranscript := ''Ahoj.'',
                     lastTranslation := ''Hello.'', audioBuffer := replicate 16000 0\<rparr>,
      [Call_transcribeBuffer (audioBuffer sample_session) ''cs-CZ'',
       Call_addPunctuation '' ahoj '' ''cs'' ''formal'' False,
       Call_translateText ''Ahoj.'' ''cs'' ''en'',
       Call_addPunctuation ''hello'' ''en'' ''formal'' True,
       Emit (Transcription_result
               \<lparr>transcript = ''Ahoj.'', translation = ''Hello.'', confidence = 9 / 10,
                isFinal = False, speaker = ''Speaker'', punctuated = True\<rparr>)])"
proof -
  have s: "hasSound (4096 # int16_samples (replicate 31998 0))" by (simp add: hasSound_def)
  have nb: "trim (stt_transcript (recognition sample_replies)) \<noteq> []"
    unfolding sample_heard by simp
  have d: "isSignificantlyDifferent (trim (stt_transcript (recognition sample_replies)))
             (lastTranscript sample_session)"
    by (simp add: isSignificantlyDifferent_def sample_session_fields)
  have p: "punctuate_transcript sample_replies sample_session
             (stt_transcript (recognition sample_replies))
             (trim (stt_transcript (recognition sample_replies))) =
           (''Ahoj.'', [Call_addPunctuation '' ahoj '' ''cs'' ''formal'' False])"
    by (simp add: sample_punctuated sample_session_fields)
  have t: "translate_interim sample_replies sample_session ''Ahoj.'' =
           (''Hello.'',
            [Call_translateText ''Ahoj.'' ''cs'' ''en'',
             Call_addPunctuation ''hello'' ''en'' ''formal'' True])"
    by (simp add: translate_interim_def sample_replies_def sample_session_fields)
  have len: "length (audioBuffer sample_session) = 32000" by (simp add: sample_session_fields)
  show ?thesis
    unfolding batch_full[OF sample_session_samples s nb d p t] len
    by (simp add: sample_session_fields(3-) sample_session_kept keepBufferSize_def
        confidence_or_default_def sample_replies_def)
qed

lemma sample_final_run:
  "on_stop_transcription sample_replies sample_session =
     (sample_session\<lparr>isTranscribing := False, audioBuffer := []\<rparr>,
      [Call_transcribeBuffer (audioBuffer sample_session) ''cs-CZ'',
       Call_addPunctuation '' ahoj '' ''cs'' ''formal'' False,
       Call_translateText ''Ahoj.'' ''cs'' ''en'',
       Call_addPunctuation ''hello'' ''en'' ''formal'' True,
       Emit (Transcription_result
               \<lparr>transcript = ''Ahoj.'', translation = ''Hello.'', confidence = 9 / 10,
                isFinal = True, speaker = ''Speaker'', punctuated = True\<rparr>)])"
proof -
  have b: "audioBuffer sample_session \<noteq> []" by (simp add: sample_session_fields)
  have nb: "trim (stt_transcript (recognition sample_replies)) \<noteq> []"
    unfolding sample_heard by simp
  have d: "isFinalDifferent (trim (stt_transcript (recognition sample_replies)))
             (lastTranscript sample_session)"
    by (simp add: isFinalDifferent_def sample_session_fields)
  have p: "punctuate_transcript sample_replies (sample_session\<lparr>isTranscribing := False\<rparr>)
             (stt_transcript (recognition sample_replies))
             (trim (stt_transcript (recognition sample_replies))) =
           (''Ahoj.'', [Call_addPunctuation '' ahoj '' ''cs'' ''formal'' False])"
    by (simp add: sample_punctuated sample_session_fields)
  have t: "translate_final sample_replies (sample_session\<lparr>isTranscribing := False\<rparr>) ''Ahoj.'' =
           (''Hello.'',
            [Call_translateText ''Ahoj.'' ''cs'' ''en'',
             Call_addPunctuation ''hello'' ''en'' ''formal'' True])"
    by (simp add: translate_final_def sample_replies_def sample_session_fields)
  show ?thesis
    unfolding stop_full[OF b nb d p t]
    by (simp add: sample_session_fields(3-) confidence_or_default_def sample_replies_def)
qed

lemma zero_sample: "sint (word_cat (0 :: 8 word) (0 :: 8 word) :: 16 word) = 0"
  by code_simp

lemma int16_samples_silence: "int16_samples (replicate (2 * n) 0) = replicate n 0"
  by (induction n) (simp_all add: zero_sample)

lemma sample_quiet_samples:
  "int16_samples (audioBuffer sample_session_quiet) = replicate 16000 0"
proof -
  have "audioBuffer sample_session_quiet = replicate (2 * 16000) 0"
    by (simp add: sample_session_quiet_def)
  then show ?thesis by (simp only: int16_samples_silence)
qed

subsection \<open>The duplicate check\<close>

lemma longer_by_fifth:
  fixes n l :: nat
  shows "(of_nat n :: rat) > of_nat l * (12 / 10) \<longleftrightarrow>
         int n - int l > 0 \<and> (of_int (int n - int l) :: rat) > (1 / 5) * of_nat l"
proof -
  have l0: "(0 :: rat) \<le> of_nat l" by simp
  have c: "int n - int l > 0 \<longleftrightarrow> (of_nat l :: rat) < of_nat n" by simp
  show ?thesis unfolding c using l0 by (simp add: field_simps) linarith
qed

lemma shorter_by_fifth:
  fixes n l :: nat
  shows "(of_nat n :: rat) < of_nat l * (8 / 10) \<longleftrightarrow>
         int l - int n > 0 \<and> (of_int (int l - int n) :: rat) > (1 / 5) * of_nat l"
proof -
  have l0: "(0 :: rat) \<le> of_nat l" by simp
  have c: "int l - int n > 0 \<longleftrightarrow> (of_nat n :: rat) < of_nat l" by simp
  show ?thesis unfolding c using l0 by (simp add: field_simps) linarith
qed

lemma longer_by_tenth:
  fixes n l :: nat
  shows "(of_nat n :: rat) > of_nat l * (11 / 10) \<longleftrightarrow>
         int n - int l > 0 \<and> (of_int (int n - int l) :: rat) > (1 / 10) * of_nat l"
proof -
  have l0: "(0 :: rat) \<le> of_nat l" by simp
  have c: "int n - int l > 0 \<longleftrightarrow> (of_nat l :: rat) < of_nat n" by simp
  show ?thesis unfolding c using l0 by (simp add: field_simps) linarith
qed

lemma shorter_by_tenth:
  fixes n l :: nat
  shows "(of_nat n :: rat) < of_nat l * (9 / 10) \<longleftrightarrow>
         int l - int n > 0 \<and> (of_int (int l - int n) :: rat) > (1 / 10) * of_nat l"
proof -
  have l0: "(0 :: rat) \<le> of_nat l" by simp
  have c: "int l - int n > 0 \<longleftrightarrow> (of_nat n :: rat) < of_nat l" by simp
  show ?thesis unfolding c using l0 by (simp add: field_simps) linarith
qed

lemma interim_check_is_spec:
  "isSignificantlyDifferent newText lastText \<longleftrightarrow> spec_non_duplicate (1 / 5) newText lastText"
  unfolding isSignificantlyDifferent_def spec_non_duplicate_def
    longer_by_fifth shorter_by_fifth str_includes_sublist by blast

lemma final_check_is_spec:
  "isFinalDifferent newText lastText \<longleftrightarrow> spec_non_duplicate (1 / 10) newText lastText"
  unfolding isFinalDifferent_def spec_non_duplicate_def
    longer_by_tenth shorter_by_tenth str_includes_sublist by blast

text \<open>
  C1. The check of an interim transcript against the last one is the duplicate check of
  the specification with the ratio 20%, and the check of the final transcript the one
  with 10%: the new text is no duplicate exactly when the last text is empty, or the new
  text is longer than the last by more than the ratio, or shorter by more than the ratio,
  or neither contains the other. A \<open>transcription-result\<close> is emitted, by an interim run
  or by the final one, only for a recognised transcript that is not blank and that its
  check finds different: a duplicate is suppressed, and an empty or blank transcript is
  never emitted.
\<close>

theorem transcript_duplicate_check:
  "(isSignificantlyDifferent newText lastText \<longleftrightarrow>
      spec_non_duplicate (20 / 100) newText lastText) \<and>
   (isFinalDifferent newText lastText \<longleftrightarrow>
      spec_non_duplicate (10 / 100) newText lastText) \<and>
   (list_ex is_result_event (emitted (snd (processBatchTranscription world now c))) \<longrightarrow>
      trim (stt_transcript (recognition world)) \<noteq> [] \<and>
      isSignificantlyDifferent (trim (stt_transcript (recognition world))) (lastTranscript c)) \<and>
   (list_ex is_result_event (emitted (snd (on_stop_transcription world c))) \<longrightarrow>
      trim (stt_transcript (recognition world)) \<noteq> [] \<and>
      isFinalDifferent (trim (stt_transcript (recognition world))) (lastTranscript c))"
proof -
  have a: "isSignificantlyDifferent newText lastText \<longleftrightarrow>
             spec_non_duplicate (20 / 100) newText lastText"
    using interim_check_is_spec[of newText lastText] by simp
  have b: "isFinalDifferent newText lastText \<longleftrightarrow>
             spec_non_duplicate (10 / 100) newText lastText"
    using final_check_is_spec[of newText lastText] by simp
  show ?thesis
    using a b interim_result_only_if_different[of world now c]
      final_result_only_if_different[of world c] by blast
qed

theorem transcript_duplicate_check_witness:
  "list_ex is_result_event
     (emitted (snd (processBatchTranscription sample_replies 2000 sample_session))) \<and>
   list_ex is_result_event (emitted (snd (on_stop_transcription sample_replies sample_session))) \<and>
   trim (stt_transcript (recognition sample_replies)) = ''ahoj'' \<and>
   isSignificantlyDifferent (trim (stt_transcript (recognition sample_replies)))
     (lastTranscript sample_session) \<and>
   isFinalDifferent (trim (stt_transcript (recognition sample_replies)))
     (lastTranscript sample_session) \<and>
   (isSignificantlyDifferent ''ahoj svete'' ''ahoj'' \<longleftrightarrow>
      spec_non_duplicate (20 / 100) ''ahoj svete'' ''ahoj'')"
proof -
  have interim: "list_ex is_result_event
     (emitted (snd (processBatchTranscription sample_replies 2000 sample_session)))"
    by (simp add: sample_interim_run)
  have final: "list_ex is_result_event
     (emitted (snd (on_stop_transcription sample_replies sample_session)))"
    by (simp add: sample_final_run)
  note heard = sample_heard
  from transcript_duplicate_check[of "''ahoj svete''" "''ahoj''" sample_replies 2000
      sample_session] interim final heard
  show ?thesis by simp
qed

subsection \<open>Stop\<close>

text \<open>
  C2, as amended. When \<open>stop-transcription\<close> arrives with a pending buffer that is not
  empty, the handler marks the session as not transcribing and makes exactly one
  recognition call, over the whole remaining buffer. It emits nothing, or one
  \<open>transcription-result\<close> with \<open>isFinal = True\<close>, and it emits that one exactly when the
  recognised transcript is not blank and the final duplicate check finds it different.
  After a final result, and when the transcript is blank, the buffer is cleared. The
  handler emits no \<open>transcription-stopped\<close> event.
\<close>

theorem stop_flushes_once:
  assumes "audioBuffer c \<noteq> []"
  shows "filter is_recognition_call (snd (on_stop_transcription world c)) =
           [Call_transcribeBuffer (audioBuffer c) (speechLanguage c)] \<and>
         \<not> isTranscribing (fst (on_stop_transcription world c)) \<and>
         ''transcription-stopped'' \<notin>
           set (map event_name (emitted (snd (on_stop_transcription world c)))) \<and>
         ((\<exists>r. emitted (snd (on_stop_transcription world c)) = [Transcription_result r] \<and>
               isFinal r) \<longleftrightarrow>
            trim (stt_transcript (recognition world)) \<noteq> [] \<and>
            isFinalDifferent (trim (stt_transcript (recognition world))) (lastTranscript c)) \<and>
         (emitted (snd (on_stop_transcription world c)) = [] \<longleftrightarrow>
            \<not> (trim (stt_transcript (recognition world)) \<noteq> [] \<and>
               isFinalDifferent (trim (stt_transcript (recognition world))) (lastTranscript c))) \<and>
         (trim (stt_transcript (recognition world)) = [] \<or>
          emitted (snd (on_stop_transcription world c)) \<noteq> [] \<longrightarrow>
            audioBuffer (fst (on_stop_transcription world c)) = [])"
proof (cases "trim (stt_transcript (recognition world)) = []")
  case True
  with assms show ?thesis by (simp add: stop_blank)
next
  case nonblank: False
  show ?thesis
  proof (cases "isFinalDifferent (trim (stt_transcript (recognition world))) (lastTranscript c)")
    case False
    with assms nonblank show ?thesis by (simp add: stop_duplicate)
  next
    case True
    obtain pt calls1 where p: "punctuate_transcript world (c\<lparr>isTranscribing := False\<rparr>)
        (stt_transcript (recognition world)) (trim (stt_transcript (recognition world)))
        = (pt, calls1)"
      by (cases "punctuate_transcript world (c\<lparr>isTranscribing := False\<rparr>)
        (stt_transcript (recognition world)) (trim (stt_transcript (recognition world)))") auto
    obtain ptr calls2 where
      t: "translate_final world (c\<lparr>isTranscribing := False\<rparr>) pt = (ptr, calls2)"
      by (cases "translate_final world (c\<lparr>isTranscribing := False\<rparr>) pt") auto
    have e1: "emitted calls1 = []"
      using emitted_punctuate_transcript[of world "c\<lparr>isTranscribing := False\<rparr>"
          "stt_transcript (recognition world)" "trim (stt_transcript (recognition world))"] p
      by simp
    have e2: "emitted calls2 = []"
      using emitted_translate_final[of world "c\<lparr>isTranscribing := False\<rparr>" pt] t by simp
    have r1: "filter is_recognition_call calls1 = []"
      using recognition_calls_punctuate_transcript[of world "c\<lparr>isTranscribing := False\<rparr>"
          "stt_transcript (recognition world)" "trim (stt_transcript (recognition world))"] p
      by simp
    have r2: "filter is_recognition_call calls2 = []"
      using recognition_calls_translate_final[of world "c\<lparr>isTranscribing := False\<rparr>" pt] t
      by simp
    show ?thesis
      using nonblank True e1 e2 r1 r2
      by (simp add: stop_full[OF assms nonblank True p t] emitted_append)
  qed
qed

theorem stop_flushes_once_witness:
  "audioBuffer sample_session \<noteq> [] \<and>
   emitted (snd (on_stop_transcription sample_replies sample_session)) \<noteq> [] \<and>
   filter is_recognition_call (snd (on_stop_transcription sample_replies sample_session)) =
     [Call_transcribeBuffer (audioBuffer sample_session) (speechLanguage sample_session)] \<and>
   audioBuffer (fst (on_stop_transcription sample_replies sample_session)) = []"
proof -
  have pending: "audioBuffer sample_session \<noteq> []" by (simp add: sample_session_fields)
  have sent: "emitted (snd (on_stop_transcription sample_replies sample_session)) \<noteq> []"
    by (simp add: sample_final_run)
  from stop_flushes_once[OF pending, of sample_replies] pending sent
  show ?thesis by blast
qed

text \<open>
  The claim as stated fails: a stop with a second of audio pending runs the pipeline,
  emits the final result and ends, and no event named \<open>transcription-stopped\<close> follows it.
\<close>

theorem stop_emits_no_stopped_event:
  "audioBuffer sample_session \<noteq> [] \<and>
   map event_name (emitted (snd (on_stop_transcription sample_replies sample_session))) =
     [''transcription-result'']"
  by (simp add: sample_session_fields sample_final_run)

subsection \<open>Dispatch\<close>

text \<open>
  The check of the handler reads the time recorded in the session. For a session that
  is transcribing and a frame of 16-bit samples, the frame is appended, and the pipeline
  runs on the accumulated buffer exactly when the buffer now has at least 32000 bytes and
  the clock is at least 1000 milliseconds past the recorded time; otherwise the frame is
  only appended and nothing else happens. A recognition call is made exactly when both
  conditions hold and the segment, a buffer of whole samples, has sound; it is one call,
  over the whole accumulated buffer.
\<close>

lemma dispatch_by_recorded_time:
  assumes "isTranscribing c" and "audioChunk audioData = Inr chunk"
  shows "on_audio_data world now later audioData c =
           (if length (audioBuffer c @ chunk) \<ge> 32000 \<and> now - lastTranscriptionTime c \<ge> 1000
            then processBatchTranscription world later (c\<lparr>audioBuffer := audioBuffer c @ chunk\<rparr>)
            else (c\<lparr>audioBuffer := audioBuffer c @ chunk\<rparr>, [])) \<and>
         filter is_recognition_call (snd (on_audio_data world now later audioData c)) =
           (if length (audioBuffer c @ chunk) \<ge> 32000 \<and> now - lastTranscriptionTime c \<ge> 1000 \<and>
               even (length (audioBuffer c @ chunk)) \<and>
               hasSound (int16_samples (audioBuffer c @ chunk))
            then [Call_transcribeBuffer (audioBuffer c @ chunk) (speechLanguage c)]
            else [])"
proof -
  have eq: "on_audio_data world now later audioData c =
           (if length (audioBuffer c @ chunk) \<ge> 32000 \<and> now - lastTranscriptionTime c \<ge> 1000
            then processBatchTranscription world later (c\<lparr>audioBuffer := audioBuffer c @ chunk\<rparr>)
            else (c\<lparr>audioBuffer := audioBuffer c @ chunk\<rparr>, []))"
    using assms
    by (simp add: on_audio_data_def Let_def bufferSizeThreshold_def minAudioDuration_def)
  have calls: "filter is_recognition_call (snd (on_audio_data world now later audioData c)) =
           (if length (audioBuffer c @ chunk) \<ge> 32000 \<and> now - lastTranscriptionTime c \<ge> 1000 \<and>
               even (length (audioBuffer c @ chunk)) \<and>
               hasSound (int16_samples (audioBuffer c @ chunk))
            then [Call_transcribeBuffer (audioBuffer c @ chunk) (speechLanguage c)]
            else [])"
    unfolding eq by (simp add: batch_recognition_calls Int16Array_def)
  from eq calls show ?thesis by blast
qed

text \<open>
  The recorded time is set by a run that finds silence, a duplicate, or a transcript to
  process. A run whose recognition answers a blank transcript, as every failed
  recognition does, leaves the session as it was, recorded time and buffer.
\<close>

lemma blank_run_records_nothing:
  assumes "even (length (audioBuffer c))" and "hasSound (int16_samples (audioBuffer c))"
    and "trim (stt_transcript (recognition world)) = []"
  shows "fst (processBatchTranscription world now c) = c"
proof -
  have v: "Int16Array (audioBuffer c) = Inr (int16_samples (audioBuffer c))"
    using assms(1) by (simp add: Int16Array_def)
  show ?thesis by (simp add: batch_blank[OF v assms(2,3)])
qed

lemma sample_frame: "audioChunk [258] = Inr [2, 1]"
  by code_simp

lemma sample_blank_heard: "trim (stt_transcript (recognition sample_replies_blank)) = []"
  by (simp add: sample_replies_blank_def)

lemma sample_nearly_full_fields:
  "audioBuffer sample_session_nearly_full = [0, 16] @ replicate 31996 0"
  "isTranscribing sample_session_nearly_full"
  "lastTranscriptionTime sample_session_nearly_full = 0"
  "speechLanguage sample_session_nearly_full = ''cs-CZ''"
  by (simp_all add: sample_session_nearly_full_def on_start_transcription_def
      new_connection_def)

lemma sample_first_dispatch:
  "on_audio_data sample_replies_blank 1000 1400 [258] sample_session_nearly_full =
     (sample_session_dispatched,
      [Call_transcribeBuffer (audioBuffer sample_session_dispatched) ''cs-CZ''])"
proof -
  note fields = sample_nearly_full_fields
  have appended: "sample_session_nearly_full
      \<lparr>audioBuffer := audioBuffer sample_session_nearly_full @ [2, 1]\<rparr> =
      sample_session_dispatched"
    by (simp add: sample_session_dispatched_def fields)
  have due: "length (audioBuffer sample_session_nearly_full @ [2, 1]) \<ge> 32000 \<and>
             1000 - lastTranscriptionTime sample_session_nearly_full \<ge> 1000"
    by (simp add: fields)
  have v: "Int16Array (audioBuffer sample_session_dispatched) =
             Inr (4096 # int16_samples (replicate 31996 0 @ [2, 1]))"
    by (simp add: Int16Array_def sample_session_dispatched_def loud_sample)
  have s: "hasSound (4096 # int16_samples (replicate 31996 0 @ [2, 1]))"
    by (simp add: hasSound_def)
  have lang: "speechLanguage sample_session_dispatched = ''cs-CZ''"
    by (simp add: sample_session_dispatched_def fields)
  show ?thesis
    using dispatch_by_recorded_time[OF fields(2) sample_frame,
        of sample_replies_blank 1000 1400, THEN conjunct1] due
    by (simp add: appended batch_blank[OF v s sample_blank_heard] lang)
qed

lemma sample_second_dispatch:
  "on_audio_data sample_replies_blank 1500 1900 [258] sample_session_dispatched =
     (sample_session_dispatched_again,
      [Call_transcribeBuffer (audioBuffer sample_session_dispatched_again) ''cs-CZ''])"
proof -
  note fields = sample_nearly_full_fields
  have on: "isTranscribing sample_session_dispatched"
    by (simp add: sample_session_dispatched_def fields)
  have appended: "sample_session_dispatched
      \<lparr>audioBuffer := audioBuffer sample_session_dispatched @ [2, 1]\<rparr> =
      sample_session_dispatched_again"
    by (simp add: sample_session_dispatched_def sample_session_dispatched_again_def)
  have due: "length (audioBuffer sample_session_dispatched @ [2, 1]) \<ge> 32000 \<and>
             1500 - lastTranscriptionTime sample_session_dispatched \<ge> 1000"
    by (simp add: sample_session_dispatched_def fields)
  have v: "Int16Array (audioBuffer sample_session_dispatched_again) =
             Inr (4096 # int16_samples (replicate 31996 0 @ [2, 1, 2, 1]))"
    by (simp add: Int16Array_def sample_session_dispatched_again_def loud_sample)
  have s: "hasSound (4096 # int16_samples (replicate 31996 0 @ [2, 1, 2, 1]))"
    by (simp add: hasSound_def)
  have lang: "speechLanguage sample_session_dispatched_again = ''cs-CZ''"
    by (simp add: sample_session_dispatched_again_def fields)
  show ?thesis
    using dispatch_by_recorded_time[OF on sample_frame,
        of sample_replies_blank 1500 1900, THEN conjunct1] due
    by (simp add: appended batch_blank[OF v s sample_blank_heard] lang)
qed

text \<open>
  C7. The claim does not hold of the code after a recognition that answers a blank
  transcript. A session started at 0 holds 31998 bytes, with sound. The frame that
  arrives at 1000 fills the buffer to 32000 bytes, a second after the start: the segment
  is dispatched, with one recognition call, which hears nothing, and the run records no
  time. The next frame arrives at 1500, half a second after that dispatch, less than the
  minimum interval of 1000: the handler compares the clock with the time recorded at the
  start and dispatches again, with a second recognition call over the buffer grown by
  the frame.
\<close>

theorem blank_recognition_dispatched_again:
  "on_audio_data sample_replies_blank 1000 1400 [258] sample_session_nearly_full =
     (sample_session_dispatched,
      [Call_transcribeBuffer (audioBuffer sample_session_dispatched) ''cs-CZ'']) \<and>
   length (audioBuffer sample_session_dispatched) = 32000 \<and>
   lastTranscriptionTime sample_session_dispatched = 0 \<and>
   1500 - 1000 < minAudioDuration \<and>
   on_audio_data sample_replies_blank 1500 1900 [258] sample_session_dispatched =
     (sample_session_dispatched_again,
      [Call_transcribeBuffer (audioBuffer sample_session_dispatched_again) ''cs-CZ'']) \<and>
   audioBuffer sample_session_dispatched_again = audioBuffer sample_session_dispatched @ [2, 1]"
  using sample_first_dispatch sample_second_dispatch
  by (simp add: sample_session_dispatched_def sample_session_dispatched_again_def
      sample_nearly_full_fields minAudioDuration_def)

subsection \<open>Silence\<close>

text \<open>
  C8. When no sample of the segment given to the pipeline exceeds 100 in absolute value,
  the run emits no \<open>transcription-result\<close> and makes no recognition call; on a buffer of
  whole samples it does nothing but empty the buffer and set the dispatch time to the
  current time.
\<close>

theorem silence_suppressed:
  assumes "\<forall>s \<in> set (int16_samples (audioBuffer c)). \<bar>s\<bar> \<le> 100"
  shows "\<not> list_ex is_result_event (emitted (snd (processBatchTranscription world now c))) \<and>
         \<not> list_ex is_recognition_call (snd (processBatchTranscription world now c)) \<and>
         (even (length (audioBuffer c)) \<longrightarrow>
            processBatchTranscription world now c =
              (c\<lparr>lastTranscriptionTime := now, audioBuffer := []\<rparr>, []))"
proof (cases "even (length (audioBuffer c))")
  case True
  then have v: "Int16Array (audioBuffer c) = Inr (int16_samples (audioBuffer c))"
    by (simp add: Int16Array_def)
  have s: "\<not> hasSound (int16_samples (audioBuffer c))"
    using assms by (simp add: hasSound_iff)
  show ?thesis by (simp add: batch_silence[OF v s])
next
  case False
  then have v: "Int16Array (audioBuffer c) = Inl OddByteLength"
    by (simp add: Int16Array_def)
  show ?thesis using False by (simp add: batch_odd[OF v])
qed

theorem silence_suppressed_witness:
  "int16_samples (audioBuffer sample_session_quiet) = replicate 16000 0 \<and>
   even (length (audioBuffer sample_session_quiet)) \<and>
   processBatchTranscription sample_replies 2000 sample_session_quiet =
     (sample_session_quiet\<lparr>lastTranscriptionTime := 2000, audioBuffer := []\<rparr>, [])"
proof -
  note samples = sample_quiet_samples
  have quiet: "\<forall>s \<in> set (int16_samples (audioBuffer sample_session_quiet)). \<bar>s\<bar> \<le> 100"
    unfolding samples by simp
  have whole: "even (length (audioBuffer sample_session_quiet))"
    by (simp add: sample_session_quiet_def)
  from silence_suppressed[OF quiet, of sample_replies 2000] samples whole
  show ?thesis by blast
qed

subsection \<open>A repeated translation\<close>

text \<open>
  C10. In an interim run that reaches the translation, so on a segment with sound whose
  transcript is not blank and passes the transcript's duplicate check: when the
  translation computed, after punctuation, is equal to the session's last translation,
  which is not empty, the run emits no event; the last transcript and the last translation
  are set to the new values all the same, the dispatch time is set, and of the buffer the
  last 16000 bytes are kept.
\<close>

theorem repeated_translation_not_emitted:
  assumes "even (length (audioBuffer c))" and "hasSound (int16_samples (audioBuffer c))"
    and "trim (stt_transcript (recognition world)) \<noteq> []"
    and "isSignificantlyDifferent (trim (stt_transcript (recognition world))) (lastTranscript c)"
    and "punctuate_transcript world c (stt_transcript (recognition world))
           (trim (stt_transcript (recognition world))) = (punctuatedTranscript, calls1)"
    and "translate_interim world c punctuatedTranscript = (punctuatedTranslation, calls2)"
    and "punctuatedTranslation = lastTranslation c" and "lastTranslation c \<noteq> []"
  shows "emitted (snd (processBatchTranscription world now c)) = [] \<and>
         lastTranscript (fst (processBatchTranscription world now c)) = punctuatedTranscript \<and>
         lastTranslation (fst (processBatchTranscription world now c)) = punctuatedTranslation \<and>
         lastTranscriptionTime (fst (processBatchTranscription world now c)) = now \<and>
         audioBuffer (fst (processBatchTranscription world now c)) =
           (if length (audioBuffer c) > 16000
            then drop (length (audioBuffer c) - 16000) (audioBuffer c)
            else audioBuffer c)"
proof -
  have v: "Int16Array (audioBuffer c) = Inr (int16_samples (audioBuffer c))"
    using assms(1) by (simp add: Int16Array_def)
  have e1: "emitted calls1 = []"
    using emitted_punctuate_transcript[of world c "stt_transcript (recognition world)"
        "trim (stt_transcript (recognition world))"] assms(5) by simp
  have e2: "emitted calls2 = []"
    using emitted_translate_interim[of world c punctuatedTranscript] assms(6) by simp
  show ?thesis
    using assms(7,8) e1 e2
    by (simp add: batch_full[OF v assms(2,3,4,5,6)] emitted_append keepBufferSize_def)
qed

theorem repeated_translation_not_emitted_witness:
  "even (length (audioBuffer sample_session_after_run)) \<and>
   hasSound (int16_samples (audioBuffer sample_session_after_run)) \<and>
   trim (stt_transcript (recognition sample_replies_longer)) = ''dobry den vsem'' \<and>
   isSignificantlyDifferent (trim (stt_transcript (recognition sample_replies_longer)))
     (lastTranscript sample_session_after_run) \<and>
   punctuate_transcript sample_replies_longer sample_session_after_run
     (stt_transcript (recognition sample_replies_longer))
     (trim (stt_transcript (recognition sample_replies_longer))) =
     (''Ahoj.'', [Call_addPunctuation ''dobry den vsem'' ''cs'' ''formal'' False]) \<and>
   translate_interim sample_replies_longer sample_session_after_run ''Ahoj.'' =
     (''Hello.'',
      [Call_translateText ''Ahoj.'' ''cs'' ''en'',
       Call_addPunctuation ''hello'' ''en'' ''formal'' True]) \<and>
   lastTranslation sample_session_after_run = ''Hello.'' \<and>
   emitted (snd (processBatchTranscription sample_replies_longer 4000
                   sample_session_after_run)) = [] \<and>
   lastTranscriptionTime (fst (processBatchTranscription sample_replies_longer 4000
                                 sample_session_after_run)) = 4000"
proof -
  note fields = sample_session_after_run_def sample_session_fields
  have whole: "even (length (audioBuffer sample_session_after_run))"
    by (simp add: fields)
  have sound: "hasSound (int16_samples (audioBuffer sample_session_after_run))"
    by (simp add: fields hasSound_def loud_sample)
  have heard: "trim (stt_transcript (recognition sample_replies_longer)) = ''dobry den vsem''"
    by code_simp
  have nonblank: "trim (stt_transcript (recognition sample_replies_longer)) \<noteq> []"
    unfolding heard by simp
  have longer: "isSignificantlyDifferent ''dobry den vsem'' ''Ahoj.''" by code_simp
  have different: "isSignificantlyDifferent
     (trim (stt_transcript (recognition sample_replies_longer)))
     (lastTranscript sample_session_after_run)"
    unfolding heard using longer by (simp add: fields)
  have punctuated: "punctuate_transcript sample_replies_longer sample_session_after_run
     (stt_transcript (recognition sample_replies_longer))
     (trim (stt_transcript (recognition sample_replies_longer))) =
     (''Ahoj.'', [Call_addPunctuation ''dobry den vsem'' ''cs'' ''formal'' False])"
    by (simp add: punctuate_transcript_def sample_replies_longer_def sample_replies_def fields)
  have translated: "translate_interim sample_replies_longer sample_session_after_run ''Ahoj.'' =
     (''Hello.'',
      [Call_translateText ''Ahoj.'' ''cs'' ''en'',
       Call_addPunctuation ''hello'' ''en'' ''formal'' True])"
    by (simp add: translate_interim_def sample_replies_longer_def sample_replies_def fields)
  have last: "lastTranslation sample_session_after_run = ''Hello.''" by (simp add: fields)
  have same: "''Hello.'' = lastTranslation sample_session_after_run" using last by simp
  have some: "lastTranslation sample_session_after_run \<noteq> []" using last by simp
  from repeated_translation_not_emitted[OF whole sound nonblank different punctuated
      translated same some, of 4000]
    whole sound heard different punctuated translated last
  show ?thesis by simp
qed

end
